theory Spec2Isabelle
  imports Main "HOL-Library.Word" "HOL-Library.Multiset"
begin

section \<open>Strings as the Python code uses them\<close>

text \<open>
  Text is a \<open>string\<close> (a list of 8-bit characters). \<open>lower\<close> is \<^verbatim>\<open>str.lower()\<close> on the
  ASCII letters; every other character is left as it is. All keywords and patterns of the
  classifier are ASCII lower-case, and the general theorems below speak of \<open>lower text\<close>
  as a whole, so they do not depend on how a non-ASCII character is folded.
\<close>

definition lower_char :: "char \<Rightarrow> char" where
  "lower_char c =
     (case map_of (zip ''ABCDEFGHIJKLMNOPQRSTUVWXYZ'' ''abcdefghijklmnopqrstuvwxyz'') c of
        None \<Rightarrow> c
      | Some d \<Rightarrow> d)"

definition lower :: "string \<Rightarrow> string" where
  "lower s = map lower_char s"

text \<open>\<^verbatim>\<open>sub in s\<close> on strings: \<open>sub\<close> occurs in \<open>s\<close> as a contiguous slice.\<close>

fun starts_with :: "string \<Rightarrow> string \<Rightarrow> bool" where
  "starts_with [] s = True"
| "starts_with (c # p) [] = False"
| "starts_with (c # p) (d # s) = (c = d \<and> starts_with p s)"

fun str_in :: "string \<Rightarrow> string \<Rightarrow> bool" where
  "str_in sub [] = starts_with sub []"
| "str_in sub (d # s) = (starts_with sub (d # s) \<or> str_in sub s)"

text \<open>Python truthiness of an \<^verbatim>\<open>Optional[str]\<close>: neither \<^verbatim>\<open>None\<close> nor the empty string.\<close>

fun truthy :: "string option \<Rightarrow> bool" where
  "truthy None = False"
| "truthy (Some s) = (s \<noteq> [])"

text \<open>The string of a truthy \<^verbatim>\<open>Optional[str]\<close>, for the branches \<^verbatim>\<open>if v:\<close> that go on to use it.\<close>

fun truthy_value :: "string option \<Rightarrow> string option" where
  "truthy_value None = None"
| "truthy_value (Some s) = (if s = [] then None else Some s)"

section \<open>The regular expressions of the pattern table\<close>

text \<open>
  The patterns of \<^verbatim>\<open>ChatService.intent_patterns\<close> are written with literal characters,
  the dot and the postfix star only. \<open>parse\<close> reads such a pattern, and \<open>match_here\<close>
  decides whether it matches at the start of a text: a literal matches itself, the dot
  matches every character but the newline (Python's default, no DOTALL flag), a starred
  atom matches any number of repetitions. \<open>re_search\<close> is \<^verbatim>\<open>re.search(p, s) is not None\<close>:
  the pattern matches at some position of the text.
\<close>

datatype atom = Lit char | AnyChar

datatype piece = One atom | Star atom

definition atom_of :: "char \<Rightarrow> atom" where
  "atom_of c = (if c = CHR ''.'' then AnyChar else Lit c)"

fun parse :: "string \<Rightarrow> piece list" where
  "parse [] = []"
| "parse [c] = [One (atom_of c)]"
| "parse (c # d # p) =
     (if d = CHR ''*'' then Star (atom_of c) # parse p
      else One (atom_of c) # parse (d # p))"

fun atom_matches :: "atom \<Rightarrow> char \<Rightarrow> bool" where
  "atom_matches (Lit c) d = (c = d)"
| "atom_matches AnyChar d = (d \<noteq> CHR 0x0A)"

fun match_here :: "piece list \<Rightarrow> string \<Rightarrow> bool" where
  "match_here [] s = True"
| "match_here (One a # ps) [] = False"
| "match_here (One a # ps) (d # s) = (atom_matches a d \<and> match_here ps s)"
| "match_here (Star a # ps) [] = match_here ps []"
| "match_here (Star a # ps) (d # s) =
     (match_here ps (d # s) \<or> (atom_matches a d \<and> match_here (Star a # ps) s))"

fun search_pieces :: "piece list \<Rightarrow> string \<Rightarrow> bool" where
  "search_pieces ps [] = match_here ps []"
| "search_pieces ps (d # s) = (match_here ps (d # s) \<or> search_pieces ps s)"

definition re_search :: "string \<Rightarrow> string \<Rightarrow> bool" where
  "re_search pattern s = search_pieces (parse pattern) s"

text \<open>A word without the two special characters of these patterns.\<close>

definition literal :: "string \<Rightarrow> bool" where
  "literal a \<longleftrightarrow> CHR ''.'' \<notin> set a \<and> CHR ''*'' \<notin> set a"

section \<open>Intent classification (app/services/chat.py)\<close>

text \<open>
  Intents are the strings the code passes around. The conversation context is the
  per-user dictionary of app/api/chat.py; the only keys the code ever writes are
  \<^verbatim>\<open>expected_intent\<close> and \<^verbatim>\<open>memory_id\<close>, so it is a record of two optional fields
  (\<open>None\<close>: the key is absent). \<open>detect_intent\<close> takes an optional context, as the
  Python signature does (\<open>None\<close>: no context passed).
\<close>

record conversation_context =
  expected_intent :: "string option"
  memory_id :: "string option"

definition empty_context :: conversation_context where
  "empty_context = \<lparr>expected_intent = None, memory_id = None\<rparr>"

text \<open>The dictionary \<^verbatim>\<open>self.intent_patterns\<close>, in insertion order (the order \<^verbatim>\<open>items()\<close> yields).\<close>

definition intent_patterns :: "(string \<times> string list) list" where
  "intent_patterns =
    [(''save_memory'',
        [''save.*memory'', ''want.*save.*memory'', ''keep.*memory'',
         ''remember.*this'', ''store.*memory'']),
     (''search_memory'',
        [''search.*memory'', ''find.*memory'', ''look.*for.*memory'',
         ''show.*memory'', ''show.*photos'', ''find.*photos'']),
     (''delete_memory'',
        [''delete.*memory'', ''remove.*memory'', ''don't.*want.*keep'',
         ''delete.*photo'', ''remove.*photo'']),
     (''edit_memory'',
        [''edit.*memory'', ''change.*memory'', ''update.*memory'',
         ''modify.*memory'', ''change.*description'']),
     (''update_name'',
        [''change.*name'', ''update.*name'', ''new.*name'',
         ''call.*me'', ''name.*should.*be'']),
     (''update_avatar'',
        [''change.*picture'', ''update.*avatar'', ''new.*profile'',
         ''change.*profile.*picture'', ''update.*profile'']),
     (''update_password'',
        [''change.*password'', ''update.*password'', ''new.*password'',
         ''reset.*password'', ''forgot.*password''])]"

text \<open>
  The two nested \<^verbatim>\<open>for\<close> loops of \<open>detect_intent\<close>: the first pair of the table one of
  whose patterns is found in the text decides; \<open>None\<close> when the loops run to their end.
\<close>

fun scan_patterns :: "(string \<times> string list) list \<Rightarrow> string \<Rightarrow> string option" where
  "scan_patterns [] s = None"
| "scan_patterns ((intent, patterns) # rest) s =
     (if list_ex (\<lambda>pattern. re_search pattern s) patterns then Some intent
      else scan_patterns rest s)"

text \<open>
  \<^verbatim>\<open>current_context and key in current_context\<close>: the value under the key when a context
  was passed and holds the key (a dictionary that holds a key is not empty, so the
  truthiness test of the dictionary adds nothing).
\<close>

definition ctx_key ::
  "(conversation_context \<Rightarrow> string option) \<Rightarrow> conversation_context option \<Rightarrow> string option" where
  "ctx_key k current_context = (case current_context of None \<Rightarrow> None | Some c \<Rightarrow> k c)"

definition detect_intent :: "string \<Rightarrow> conversation_context option \<Rightarrow> string" where
  "detect_intent txt current_context =
     (let text_lower = lower txt in
      case ctx_key expected_intent current_context of
        Some e \<Rightarrow> e
      | None \<Rightarrow>
          (let pattern_matching =
                 (case scan_patterns intent_patterns text_lower of
                    Some intent \<Rightarrow> intent
                  | None \<Rightarrow> ''chat'')
           in if ctx_key memory_id current_context \<noteq> None then
                if str_in ''change'' text_lower \<or> str_in ''edit'' text_lower \<or>
                   str_in ''update'' text_lower
                then ''edit_memory''
                else if str_in ''delete'' text_lower \<or> str_in ''remove'' text_lower
                then ''delete_memory''
                else pattern_matching
              else pattern_matching))"

section \<open>Message identifiers (app/utils/helpers.py)\<close>

text \<open>
  \<^verbatim>\<open>generate_message_id\<close> reads the clock and the operating system's random source. Both
  readings are arguments of the model: \<open>now\<close> is the instant \<^verbatim>\<open>datetime.now()\<close> returns, in
  microseconds since the epoch (the resolution of a Python \<^verbatim>\<open>datetime\<close>), and
  \<open>random_bytes\<close> are the bytes that \<^verbatim>\<open>secrets.token_hex(4)\<close> draws (four of them).
  \<open>trunc_div\<close> is \<^verbatim>\<open>int(x / b)\<close> for a positive \<open>b\<close>, rounding towards zero, so
  \<^verbatim>\<open>int(now.timestamp() * 1000)\<close> is \<open>trunc_div now 1000\<close> and \<^verbatim>\<open>int(now.timestamp())\<close> is
  \<open>trunc_div now 1000000\<close> (the rounding of the intermediate float is not modelled).
  \<open>str_int\<close> is Python's decimal \<^verbatim>\<open>str\<close> of an integer (\<open>str_digits\<close> the digits of one
  that is not negative) and \<open>token_hex\<close> the lower-case hexadecimal text of the bytes.
\<close>

definition trunc_div :: "int \<Rightarrow> int \<Rightarrow> int" where
  "trunc_div a b = sgn a * (\<bar>a\<bar> div b)"

definition digits :: string where
  "digits = ''0123456789abcdef''"

function str_digits :: "int \<Rightarrow> string" where
  "str_digits n =
     (if n < 10 then [digits ! nat n]
      else str_digits (n div 10) @ [digits ! nat (n mod 10)])"
  by pat_completeness auto
termination
  by (relation "measure nat") auto

definition str_int :: "int \<Rightarrow> string" where
  "str_int i = (if i < 0 then CHR ''-'' # str_digits (- i) else str_digits i)"

definition hex_byte :: "8 word \<Rightarrow> string" where
  "hex_byte b = [digits ! (unat b div 16), digits ! (unat b mod 16)]"

definition token_hex :: "8 word list \<Rightarrow> string" where
  "token_hex random_bytes = concat (map hex_byte random_bytes)"

definition generate_message_id :: "string \<Rightarrow> int \<Rightarrow> 8 word list \<Rightarrow> string" where
  "generate_message_id prefix now random_bytes =
     (let timestamp' = trunc_div now 1000;
          random_part = token_hex random_bytes
      in prefix @ ''-'' @ str_int timestamp' @ ''-'' @ random_part)"

definition generate_ai_message_id :: "int \<Rightarrow> 8 word list \<Rightarrow> string" where
  "generate_ai_message_id now random_bytes = generate_message_id ''ai'' now random_bytes"

section \<open>The response catalogue (app/core/llm.py)\<close>

text \<open>Values of the \<^verbatim>\<open>Dict[str, Any]\<close> dictionaries the code builds (\<^verbatim>\<open>meta\<close>).\<close>

datatype json = JNull | JBool bool | JStr string | JList "json list"

type_synonym py_dict = "string \<rightharpoonup> json"

definition opt_str :: "string option \<Rightarrow> json" where
  "opt_str v = (case v of None \<Rightarrow> JNull | Some s \<Rightarrow> JStr s)"

record chat_message_response =
  msgId :: string
  sender :: string
  intent :: string
  content :: string
  meta :: py_dict
  timestamp :: int

text \<open>A template of \<^verbatim>\<open>intent_responses\<close> is a list of strings (for chat) or one string.\<close>

datatype template = Variants "string list" | Fixed string

definition chat_variants :: "string list" where
  "chat_variants =
     [''Hello! How can I help you today?'',
      ''Hi there! What can I do for you?'',
      ''Greetings! I'm here to assist you.'']"

definition intent_responses :: "(string \<times> template) list" where
  "intent_responses =
    [(''chat'', Variants chat_variants),
     (''save_memory'', Fixed ''Of course. Please upload a photo you'd like to save as a memory.''),
     (''add_description'', Fixed ''Your photo is ready. Whenever you're comfortable, you can tell me a few simple words about this memory.''),
     (''memory_saved'', Fixed ''That's a beautiful memory. I've saved it for you, and you can revisit or edit it anytime.''),
     (''search_memory'', Fixed ''Here are the memories I found:''),
     (''confirm_delete'', Fixed ''Of course. Are you sure you want to delete this? You can delete just the photo or the entire memory.''),
     (''memory_deleted'', Fixed ''Alright, I've deleted this photo for you. You can always add it again later if you wish.''),
     (''edit_memory'', Fixed ''Absolutely-you can change anything you want. What would you like to update: the title, the description?''),
     (''ask_new_value'', Fixed ''What would you like it to say instead?''),
     (''memory_updated'', Fixed ''That's beautiful. I've updated your memory exactly as you described it. You can edit it again anytime-you're always in control.''),
     (''update_name'', Fixed ''Of course. Your current name is {current_name}. What would you like it to be?''),
     (''name_changed'', Fixed ''Got it-I've updated your name to {new_name}. You can change it again anytime if you wish.''),
     (''update_avatar'', Fixed ''Great. When you're ready, please choose a photo from your gallery. I'll only change your avatar after you confirm.''),
     (''avatar_updated'', Fixed ''All done. Your profile photo has been updated-you can always change it again whenever you like.''),
     (''update_password'', Fixed ''No problem. To keep your account safe, I'll guide you step by step. Please enter your new password.''),
     (''confirm_password'', Fixed ''Great. Just one more step-please type it again to confirm.''),
     (''password_updated'', Fixed (''Perfect. Your password has been updated safely. If you ever forget it, I'll help you recover it. You're doing everything correctly''
        @ [CHR 0xE2, CHR 0x80, CHR 0x94] @ ''no need to worry.''))]"

text \<open>
  \<^verbatim>\<open>str.replace(old, new)\<close>: every occurrence of \<open>old\<close>, left to right and without
  overlap, becomes \<open>new\<close>; for the empty \<open>old\<close> Python puts \<open>new\<close> before every character
  and at the end.
\<close>

function py_replace :: "string \<Rightarrow> string \<Rightarrow> string \<Rightarrow> string" where
  "py_replace old new s =
     (if old = [] then new @ concat (map (\<lambda>c. c # new) s)
      else if s = [] then []
      else if starts_with old s then new @ py_replace old new (drop (length old) s)
      else hd s # py_replace old new (tl s))"
  by pat_completeness auto
termination
  by (relation "measure (\<lambda>(old, new, s). length s)") auto

text \<open>\<^verbatim>\<open>d and key in d\<close> for an optional dictionary of strings: the value, if there is one.\<close>

definition dict_key :: "string \<Rightarrow> (string \<rightharpoonup> string) option \<Rightarrow> string option" where
  "dict_key k d = (case d of None \<Rightarrow> None | Some m \<Rightarrow> m k)"

text \<open>
  \<open>generate_response\<close>. The two clock readings and the random bytes are arguments:
  \<open>id_time\<close> and \<open>id_random\<close> go to \<open>generate_ai_message_id\<close>, \<open>now\<close> is the instant
  of the second \<^verbatim>\<open>datetime.now()\<close>. The content stays empty unless the intent is in the
  table and its template is a string (\<^verbatim>\<open>isinstance(content_template, str)\<close>).
\<close>

definition generate_response ::
  "string \<Rightarrow> (string \<rightharpoonup> string) option \<Rightarrow> (string \<rightharpoonup> string) option \<Rightarrow>
   int \<Rightarrow> 8 word list \<Rightarrow> int \<Rightarrow> chat_message_response" where
  "generate_response intent' user_data context' id_time id_random now =
     (let msg_id = generate_ai_message_id id_time id_random;
          content' =
            (case map_of intent_responses intent' of
               Some (Fixed content_template) \<Rightarrow>
                 (let c1 = (case dict_key ''current_name'' user_data of
                              Some current_name \<Rightarrow> py_replace ''{current_name}'' current_name content_template
                            | None \<Rightarrow> content_template);
                      c2 = (case dict_key ''new_name'' context' of
                              Some new_name \<Rightarrow> py_replace ''{new_name}'' new_name c1
                            | None \<Rightarrow> c1)
                  in c2)
             | Some (Variants vs) \<Rightarrow> []
             | None \<Rightarrow> []);
          meta' =
            (if intent' = ''save_memory'' then [''needImage'' \<mapsto> JBool True]
             else if intent' = ''confirm_delete''
               then [''options'' \<mapsto> JList [JStr ''photo'', JStr ''memory'']]
             else if intent' = ''edit_memory''
               then [''fields'' \<mapsto> JList [JStr ''title'', JStr ''description'']]
             else Map.empty)
      in \<lparr>msgId = msg_id, sender = ''ai'', intent = intent', content = content',
          meta = meta', timestamp = trunc_div now 1000000\<rparr>)"

section \<open>The database tables (app/models, app/crud)\<close>

text \<open>
  A table is the list of its rows in insertion order. Of each model the columns that the
  chat code reads or writes are kept. A \<^verbatim>\<open>DateTime\<close> of a message is its value in
  seconds; the dates of a memory are kept as the text \<^verbatim>\<open>isoformat()\<close> prints.
\<close>

record message =
  m_user_id :: string
  m_msgId :: string
  m_sender :: string
  m_intent :: string
  m_content :: string
  m_meta :: py_dict
  m_memory_id :: "string option"
  m_timestamp :: int

record memory =
  mem_id :: string
  mem_user_id :: string
  image_url :: "string option"
  description :: "string option"
  title :: "string option"
  labels :: "string list"
  memory_date :: "string option"
  created_at :: "string option"
  updated_at :: "string option"
  is_deleted :: bool
  is_favorite :: bool

record user =
  u_id :: string
  u_name :: string
  u_is_active :: bool

record database =
  messages :: "message list"
  memories :: "memory list"
  users :: "user list"

text \<open>\<^verbatim>\<open>MessageCRUD.create\<close>: \<open>row_time\<close> is the server's \<^verbatim>\<open>now()\<close> default of the timestamp column.\<close>

definition message_crud_create ::
  "database \<Rightarrow> string \<Rightarrow> string \<Rightarrow> string \<Rightarrow> string \<Rightarrow> string \<Rightarrow> py_dict \<Rightarrow> int \<Rightarrow> database" where
  "message_crud_create db user_id msg_id sender' intent' content' meta' row_time =
     db\<lparr>messages := messages db @
          [\<lparr>m_user_id = user_id, m_msgId = msg_id, m_sender = sender', m_intent = intent',
            m_content = content', m_meta = meta', m_memory_id = None, m_timestamp = row_time\<rparr>]\<rparr>"

definition create_user_message ::
  "database \<Rightarrow> string \<Rightarrow> string \<Rightarrow> string \<Rightarrow> py_dict \<Rightarrow> int \<Rightarrow> 8 word list \<Rightarrow> int \<Rightarrow> database" where
  "create_user_message db user_id content' intent' meta' id_time id_random row_time =
     message_crud_create db user_id (generate_message_id ''user'' id_time id_random)
       ''user'' intent' content' meta' row_time"

text \<open>
  \<^verbatim>\<open>MemoryCRUD.get_by_id\<close> (with \<^verbatim>\<open>include_deleted=False\<close>) and \<^verbatim>\<open>UserCRUD.get_by_id\<close>:
  the first row that passes the filters.
\<close>

definition memory_crud_get_by_id :: "database \<Rightarrow> string \<Rightarrow> memory option" where
  "memory_crud_get_by_id db memory_id' =
     find (\<lambda>m. mem_id m = memory_id' \<and> \<not> is_deleted m) (memories db)"

definition user_crud_get_by_id :: "database \<Rightarrow> string \<Rightarrow> user option" where
  "user_crud_get_by_id db user_id =
     find (\<lambda>u. u_id u = user_id \<and> u_is_active u) (users db)"

text \<open>
  \<^verbatim>\<open>MemoryCRUD.create\<close>. \<open>new_id\<close> and \<open>new_time\<close> are the defaults the row gets (a fresh
  \<^verbatim>\<open>mem-\<close> identifier, the server's \<^verbatim>\<open>now()\<close>); \<open>extracted\<close> is the result of
  \<^verbatim>\<open>extract_labels_from_text(description)\<close>, which is read only when a description is
  given without labels (its order comes from iterating a Python set).
\<close>

definition memory_crud_create ::
  "database \<Rightarrow> string \<Rightarrow> string option \<Rightarrow> string option \<Rightarrow> string option \<Rightarrow>
   string list option \<Rightarrow> string \<Rightarrow> string \<Rightarrow> string list \<Rightarrow> memory \<times> database" where
  "memory_crud_create db user_id image_url' description' title' labels' new_id new_time extracted =
     (let labels1 = (if truthy description' \<and> (labels' = None \<or> labels' = Some [])
                     then Some extracted else labels');
          row = \<lparr>mem_id = new_id, mem_user_id = user_id, image_url = image_url',
                 description = description', title = title',
                 labels = (case labels1 of None \<Rightarrow> [] | Some ls \<Rightarrow> ls),
                 memory_date = Some new_time, created_at = Some new_time, updated_at = None,
                 is_deleted = False, is_favorite = False\<rparr>
      in (row, db\<lparr>memories := memories db @ [row]\<rparr>))"

definition memory_to_dict :: "memory \<Rightarrow> py_dict" where
  "memory_to_dict m =
     [''id'' \<mapsto> JStr (mem_id m), ''user_id'' \<mapsto> JStr (mem_user_id m),
      ''image_url'' \<mapsto> opt_str (image_url m), ''description'' \<mapsto> opt_str (description m),
      ''title'' \<mapsto> opt_str (title m), ''labels'' \<mapsto> JList (map JStr (labels m)),
      ''memory_date'' \<mapsto> opt_str (memory_date m), ''created_at'' \<mapsto> opt_str (created_at m),
      ''updated_at'' \<mapsto> opt_str (updated_at m), ''is_deleted'' \<mapsto> JBool (is_deleted m),
      ''is_favorite'' \<mapsto> JBool (is_favorite m)]"

section \<open>History retrieval (app/crud/message.py)\<close>

text \<open>
  \<^verbatim>\<open>Message.to_dict\<close>, and \<open>get_conversation_history\<close>: the rows of the user, ordered by
  the database with \<^verbatim>\<open>ORDER BY timestamp DESC\<close>, cut with \<^verbatim>\<open>LIMIT\<close>, then reversed in
  Python. The ordering is the database's: \<open>order_desc\<close> is its sort, of which SQL fixes
  only that the result holds the same rows with timestamps descending (the order of rows
  with equal timestamps is the engine's choice). The query names no other sort key; the
  column \<^verbatim>\<open>sequence\<close> of the model, commented as the message order used for sorting,
  is not read. The limit is a natural number; what a negative \<^verbatim>\<open>LIMIT\<close> does depends on
  the engine.
\<close>

record message_dict =
  d_msgId :: string
  d_sender :: string
  d_intent :: string
  d_content :: string
  d_meta :: py_dict
  d_memory_id :: "string option"
  d_timestamp :: int

definition to_dict :: "message \<Rightarrow> message_dict" where
  "to_dict m =
     \<lparr>d_msgId = m_msgId m, d_sender = m_sender m, d_intent = m_intent m,
      d_content = m_content m, d_meta = m_meta m, d_memory_id = m_memory_id m,
      d_timestamp = m_timestamp m\<rparr>"

definition get_conversation_history ::
  "(message list \<Rightarrow> message list) \<Rightarrow> database \<Rightarrow> string \<Rightarrow> nat \<Rightarrow> message_dict list" where
  "get_conversation_history order_desc db user_id limit =
     (let msgs = take limit (order_desc (filter (\<lambda>m. m_user_id m = user_id) (messages db)))
      in map to_dict (rev msgs))"

text \<open>What \<^verbatim>\<open>ORDER BY timestamp DESC\<close> guarantees of the engine's sort.\<close>

definition orders_by_timestamp_desc :: "(message list \<Rightarrow> message list) \<Rightarrow> bool" where
  "orders_by_timestamp_desc order_desc \<longleftrightarrow>
     (\<forall>rows. mset (order_desc rows) = mset rows \<and>
             sorted (rev (map m_timestamp (order_desc rows))))"

text \<open>
  The sort of the configured engine, SQLite (\<^verbatim>\<open>DATABASE_URL\<close> in app/config.py): the
  table is read in insertion order and rows of equal timestamp stay in that order, the
  earlier inserted first. \<open>sort_key\<close> is such a stable sort; the key is the negated
  timestamp, for the descending order.
\<close>

definition sqlite_order_desc :: "message list \<Rightarrow> message list" where
  "sqlite_order_desc rows = sort_key (\<lambda>m. - m_timestamp m) rows"

section \<open>The chat service (app/services/chat.py)\<close>

record chat_message_request =
  rq_text :: string
  rq_imageUrl :: "string option"
  rq_memoryId :: "string option"
  rq_extra :: py_dict

text \<open>
  What one turn reads from outside the program: the clock and random bytes of the two
  message identifiers, the clock of the renderer, the server times of the rows written,
  the identifier the database gives a new memory, the labels extracted from a
  description, and the rows the database returns to \<^verbatim>\<open>memory_crud.search\<close> (its text
  matching, \<^verbatim>\<open>ILIKE\<close> and JSON containment, is the engine's).
\<close>

record turn_env =
  user_id_time :: int
  user_id_random :: "8 word list"
  user_row_time :: int
  ai_id_time :: int
  ai_id_random :: "8 word list"
  render_now :: int
  ai_row_time :: int
  new_memory_id :: string
  new_memory_time :: string
  extracted_labels :: "string list"
  search_rows :: "memory list"

datatype error = MemoryNotFoundError string

text \<open>
  A handler returns the response or the exception it raised, with the database as it
  left it. \<open>render\<close> is the call of \<open>llm_service.generate_response\<close> with the readings of
  the turn, \<open>persist\<close> the closing \<open>message_crud.create\<close> of every handler.
\<close>

definition render ::
  "turn_env \<Rightarrow> string \<Rightarrow> (string \<rightharpoonup> string) option \<Rightarrow> (string \<rightharpoonup> string) option \<Rightarrow>
   chat_message_response" where
  "render env intent' user_data context' =
     generate_response intent' user_data context' (ai_id_time env) (ai_id_random env) (render_now env)"

definition persist ::
  "turn_env \<Rightarrow> database \<Rightarrow> string \<Rightarrow> chat_message_response \<Rightarrow> database" where
  "persist env db user_id ai_response =
     message_crud_create db user_id (msgId ai_response) ''ai'' (intent ai_response)
       (content ai_response) (meta ai_response) (ai_row_time env)"

definition handle_normal_chat ::
  "turn_env \<Rightarrow> database \<Rightarrow> string \<Rightarrow> chat_message_request \<Rightarrow>
   (error + chat_message_response) \<times> database" where
  "handle_normal_chat env db user_id request =
     (let user_data = (case user_crud_get_by_id db user_id of
                         Some u \<Rightarrow> [''current_name'' \<mapsto> u_name u]
                       | None \<Rightarrow> Map.empty);
          ai_response = render env ''chat'' (Some user_data) None
      in (Inr ai_response, persist env db user_id ai_response))"

definition handle_save_memory ::
  "turn_env \<Rightarrow> database \<Rightarrow> string \<Rightarrow> chat_message_request \<Rightarrow>
   (error + chat_message_response) \<times> database" where
  "handle_save_memory env db user_id request =
     (case truthy_value (rq_imageUrl request) of
        Some url \<Rightarrow>
          (let (mem, db1) = memory_crud_create db user_id (Some url) None None None
                              (new_memory_id env) (new_memory_time env) (extracted_labels env);
               r0 = render env ''add_description'' None
                      (Some [''memory_id'' \<mapsto> mem_id mem, ''image_url'' \<mapsto> url]);
               ai_response = r0\<lparr>meta := (meta r0)(''memoryId'' \<mapsto> JStr (mem_id mem),
                                                 ''imageUrl'' \<mapsto> JStr url)\<rparr>
           in (Inr ai_response, persist env db1 user_id ai_response))
      | None \<Rightarrow>
          (let ai_response = render env ''save_memory'' None None
           in (Inr ai_response, persist env db user_id ai_response)))"

definition handle_search_memory ::
  "turn_env \<Rightarrow> database \<Rightarrow> string \<Rightarrow> chat_message_request \<Rightarrow>
   (error + chat_message_response) \<times> database" where
  "handle_search_memory env db user_id request =
     (let found = search_rows env;
          r0 = render env ''search_memory'' None None;
          ai_response = (case found of
                           [] \<Rightarrow> r0
                         | m # _ \<Rightarrow> r0\<lparr>meta := meta r0 ++ memory_to_dict m\<rparr>)
      in (Inr ai_response, persist env db user_id ai_response))"

definition handle_delete_memory ::
  "turn_env \<Rightarrow> database \<Rightarrow> string \<Rightarrow> chat_message_request \<Rightarrow>
   (error + chat_message_response) \<times> database" where
  "handle_delete_memory env db user_id request =
     (let ai_response =
            (case truthy_value (rq_memoryId request) of
               None \<Rightarrow> render env ''confirm_delete'' None None
             | Some memory_id' \<Rightarrow>
                 (let r0 = render env ''confirm_delete'' None None
                  in r0\<lparr>meta := (meta r0)(''memoryId'' \<mapsto> JStr memory_id')\<rparr>))
      in (Inr ai_response, persist env db user_id ai_response))"

definition handle_edit_memory ::
  "turn_env \<Rightarrow> database \<Rightarrow> string \<Rightarrow> chat_message_request \<Rightarrow>
   (error + chat_message_response) \<times> database" where
  "handle_edit_memory env db user_id request =
     (case truthy_value (rq_memoryId request) of
        None \<Rightarrow>
          (let ai_response = render env ''edit_memory'' None None
           in (Inr ai_response, persist env db user_id ai_response))
      | Some memory_id' \<Rightarrow>
          (case memory_crud_get_by_id db memory_id' of
             None \<Rightarrow> (Inl (MemoryNotFoundError ''Memory not found''), db)
           | Some mem \<Rightarrow>
               (let r0 = render env ''edit_memory'' None None;
                    ai_response = r0\<lparr>meta := (meta r0)(''memoryId'' \<mapsto> JStr memory_id')\<rparr>
                in (Inr ai_response, persist env db user_id ai_response))))"

definition handle_update_name ::
  "turn_env \<Rightarrow> database \<Rightarrow> string \<Rightarrow> chat_message_request \<Rightarrow>
   (error + chat_message_response) \<times> database" where
  "handle_update_name env db user_id request =
     (let current_name = (case user_crud_get_by_id db user_id of
                            Some u \<Rightarrow> u_name u
                          | None \<Rightarrow> ''User'');
          ai_response = render env ''update_name'' (Some [''current_name'' \<mapsto> current_name]) None
      in (Inr ai_response, persist env db user_id ai_response))"

definition handle_update_avatar ::
  "turn_env \<Rightarrow> database \<Rightarrow> string \<Rightarrow> chat_message_request \<Rightarrow>
   (error + chat_message_response) \<times> database" where
  "handle_update_avatar env db user_id request =
     (let ai_response = render env ''update_avatar'' None None
      in (Inr ai_response, persist env db user_id ai_response))"

definition handle_update_password ::
  "turn_env \<Rightarrow> database \<Rightarrow> string \<Rightarrow> chat_message_request \<Rightarrow>
   (error + chat_message_response) \<times> database" where
  "handle_update_password env db user_id request =
     (let ai_response = render env ''update_password'' None None
      in (Inr ai_response, persist env db user_id ai_response))"

text \<open>
  \<open>process_message\<close>: the user's message is stored first (with the intent text
  \<^verbatim>\<open>"user"\<close> and the image URL as its metadata), then the intent is detected and its
  handler runs.
\<close>

definition process_message ::
  "turn_env \<Rightarrow> database \<Rightarrow> string \<Rightarrow> chat_message_request \<Rightarrow> conversation_context option \<Rightarrow>
   (error + chat_message_response) \<times> database" where
  "process_message env db user_id request current_context =
     (let db1 = create_user_message db user_id (rq_text request) ''user''
                  [''imageUrl'' \<mapsto> opt_str (rq_imageUrl request)]
                  (user_id_time env) (user_id_random env) (user_row_time env);
          intent' = detect_intent (rq_text request) current_context
      in if intent' = ''save_memory'' then handle_save_memory env db1 user_id request
         else if intent' = ''search_memory'' then handle_search_memory env db1 user_id request
         else if intent' = ''delete_memory'' then handle_delete_memory env db1 user_id request
         else if intent' = ''edit_memory'' then handle_edit_memory env db1 user_id request
         else if intent' = ''update_name'' then handle_update_name env db1 user_id request
         else if intent' = ''update_avatar'' then handle_update_avatar env db1 user_id request
         else if intent' = ''update_password'' then handle_update_password env db1 user_id request
         else handle_normal_chat env db1 user_id request)"

section \<open>The chat endpoint (app/api/chat.py)\<close>

text \<open>
  The state of the application: the database and the module-level dictionary
  \<^verbatim>\<open>conversation_contexts\<close>, keyed by user id.
\<close>

record app_state =
  db_of :: database
  conversation_contexts :: "string \<rightharpoonup> conversation_context"

definition continuation_intents :: "string list" where
  "continuation_intents =
     [''save_memory'', ''add_description'', ''edit_memory'', ''confirm_delete'', ''update_password'']"

definition completion_intents :: "string list" where
  "completion_intents =
     [''memory_saved'', ''memory_deleted'', ''memory_updated'', ''name_changed'',
      ''avatar_updated'', ''password_updated'']"

text \<open>
  The block of \<open>send_chat_message\<close> under the comment that updates the context (the
  \<^verbatim>\<open>if\<close>/\<^verbatim>\<open>elif\<close> on \<^verbatim>\<open>response.intent\<close>): from the dictionary, the user and the
  user's context as read at the start of the turn, to the dictionary after the turn.
\<close>

definition update_context ::
  "(string \<rightharpoonup> conversation_context) \<Rightarrow> string \<Rightarrow> conversation_context \<Rightarrow> chat_message_request \<Rightarrow>
   chat_message_response \<Rightarrow> (string \<rightharpoonup> conversation_context)" where
  "update_context contexts user_id user_context request response =
     (if intent response \<in> set continuation_intents then
        (let c1 = user_context\<lparr>expected_intent := Some (intent response)\<rparr>;
             c2 = (case truthy_value (rq_memoryId request) of
                     Some m \<Rightarrow> c1\<lparr>memory_id := Some m\<rparr>
                   | None \<Rightarrow> c1)
         in contexts(user_id \<mapsto> c2))
      else if intent response \<in> set completion_intents then contexts(user_id := None)
      else contexts)"

text \<open>
  \<open>send_chat_message\<close>. Every exception of the body is caught and raised again as an
  HTTP error of status 500; the rows written before it stay written.
\<close>

datatype api_error = HTTPException nat error

definition send_chat_message ::
  "turn_env \<Rightarrow> app_state \<Rightarrow> string \<Rightarrow> chat_message_request \<Rightarrow>
   (api_error + chat_message_response) \<times> app_state" where
  "send_chat_message env st current_user_id request =
     (let user_context = (case conversation_contexts st current_user_id of
                            None \<Rightarrow> empty_context
                          | Some c \<Rightarrow> c);
          (result, db1) = process_message env (db_of st) current_user_id request (Some user_context)
      in case result of
           Inl e \<Rightarrow> (Inl (HTTPException 500 e), st\<lparr>db_of := db1\<rparr>)
         | Inr response \<Rightarrow>
             (Inr response,
              \<lparr>db_of = db1,
               conversation_contexts =
                 update_context (conversation_contexts st) current_user_id user_context
                   request response\<rparr>))"

section \<open>Example data\<close>

text \<open>Concrete rows and requests, on which the theorems below are instantiated.\<close>

definition example_env :: turn_env where
  "example_env =
     \<lparr>user_id_time = 1700000000000123, user_id_random = [0x01, 0x02, 0x03, 0x04],
      user_row_time = 1700000000,
      ai_id_time = 1700000000050456, ai_id_random = [0xAA, 0xBB, 0xCC, 0xDD],
      render_now = 1700000000050500, ai_row_time = 1700000000,
      new_memory_id = ''mem-0a1b2c3d'', new_memory_time = ''2023-11-14T22:13:20'',
      extracted_labels = [], search_rows = []\<rparr>"

definition example_state :: app_state where
  "example_state =
     \<lparr>db_of = \<lparr>messages = [], memories = [],
               users = [\<lparr>u_id = ''u1'', u_name = ''Alex'', u_is_active = True\<rparr>]\<rparr>,
      conversation_contexts = Map.empty\<rparr>"

definition example_request :: "string \<Rightarrow> string option \<Rightarrow> string option \<Rightarrow> chat_message_request" where
  "example_request txt img mem =
     \<lparr>rq_text = txt, rq_imageUrl = img, rq_memoryId = mem, rq_extra = Map.empty\<rparr>"

definition example_response :: "string \<Rightarrow> chat_message_response" where
  "example_response i =
     \<lparr>msgId = ''ai-1700000000050-aabbccdd'', sender = ''ai'', intent = i, content = [],
      meta = Map.empty, timestamp = 1700000000\<rparr>"

text \<open>
  The database after the first turn of the user \<^verbatim>\<open>u1\<close>, a greeting. Both rows the turn
  writes get the server time of the same second, as \<open>example_env\<close> has it.
\<close>

definition example_after_turn :: database where
  "example_after_turn =
     db_of (snd (send_chat_message example_env example_state ''u1''
                   (example_request ''Hello there'' None None)))"

definition example_context :: "string \<Rightarrow> conversation_context" where
  "example_context e = \<lparr>expected_intent = Some e, memory_id = None\<rparr>"

definition example_armed :: "string \<Rightarrow> app_state" where
  "example_armed e = example_state\<lparr>conversation_contexts := [''u1'' \<mapsto> example_context e]\<rparr>"

section \<open>Properties of the classifier\<close>

lemma starts_with_iff: "starts_with p s \<longleftrightarrow> (\<exists>post. s = p @ post)"
  by (induction p s rule: starts_with.induct) auto

lemma str_in_iff: "str_in sub s \<longleftrightarrow> (\<exists>pre post. s = pre @ sub @ post)"
proof (induction s)
  case Nil
  show ?case by (cases sub) auto
next
  case (Cons d s)
  show ?case
  proof
    assume "str_in sub (d # s)"
    then consider "starts_with sub (d # s)" | "str_in sub s" by auto
    then show "\<exists>pre post. d # s = pre @ sub @ post"
    proof cases
      case 1
      then obtain post where "d # s = sub @ post" by (auto simp: starts_with_iff)
      then have "d # s = [] @ sub @ post" by simp
      then show ?thesis by blast
    next
      case 2
      with Cons obtain pre post where "s = pre @ sub @ post" by blast
      then have "d # s = (d # pre) @ sub @ post" by simp
      then show ?thesis by blast
    qed
  next
    assume "\<exists>pre post. d # s = pre @ sub @ post"
    then obtain pre post where eq: "d # s = pre @ sub @ post" by blast
    show "str_in sub (d # s)"
    proof (cases pre)
      case Nil
      with eq have "starts_with sub (d # s)" by (auto simp: starts_with_iff)
      then show ?thesis by simp
    next
      case (Cons e pre')
      with eq have "s = pre' @ sub @ post" by simp
      with Cons.IH have "str_in sub s" by blast
      then show ?thesis by simp
    qed
  qed
qed

text \<open>
  The matcher against the usual reading of the patterns of the table: a pattern
  \<^verbatim>\<open>a.*b\<close> of two literal words is found in a text exactly when the text holds \<open>a\<close>,
  later \<open>b\<close>, and no newline between them.
\<close>

lemma parse_literal: "literal a \<Longrightarrow> parse a = map (\<lambda>c. One (Lit c)) a"
  by (induction a rule: parse.induct) (auto simp: literal_def atom_of_def)

lemma parse_literal_dot_star:
  "literal a \<Longrightarrow>
   parse (a @ CHR ''.'' # CHR ''*'' # b) = map (\<lambda>c. One (Lit c)) a @ Star AnyChar # parse b"
proof (induction a)
  case Nil
  then show ?case by (simp add: atom_of_def)
next
  case (Cons c a)
  then have la: "literal a" and c: "c \<noteq> CHR ''.''" by (auto simp: literal_def)
  let ?t = "a @ CHR ''.'' # CHR ''*'' # b"
  have "hd ?t \<noteq> CHR ''*''"
    using Cons.prems by (cases a) (auto simp: literal_def)
  moreover obtain d rest where "?t = d # rest"
    by (cases ?t) auto
  ultimately have "parse (c # ?t) = One (atom_of c) # parse ?t"
    by simp
  with Cons.IH [OF la] c show ?case by (simp add: atom_of_def)
qed

lemma match_here_literal:
  "match_here (map (\<lambda>c. One (Lit c)) a @ ps) s \<longleftrightarrow> (\<exists>rest. s = a @ rest \<and> match_here ps rest)"
proof (induction a arbitrary: s)
  case Nil
  then show ?case by simp
next
  case (Cons c a)
  show ?case by (cases s) (auto simp: Cons.IH)
qed

lemma match_here_any_star:
  "match_here (Star AnyChar # ps) s \<longleftrightarrow>
     (\<exists>mid rest. s = mid @ rest \<and> CHR 0x0A \<notin> set mid \<and> match_here ps rest)"
proof (induction s)
  case Nil
  then show ?case by simp
next
  case (Cons d s)
  show ?case
  proof
    assume "match_here (Star AnyChar # ps) (d # s)"
    then consider "match_here ps (d # s)" | "d \<noteq> CHR 0x0A" "match_here (Star AnyChar # ps) s"
      by auto
    then show "\<exists>mid rest. d # s = mid @ rest \<and> CHR 0x0A \<notin> set mid \<and> match_here ps rest"
    proof cases
      case 1
      then have "d # s = [] @ d # s \<and> CHR 0x0A \<notin> set [] \<and> match_here ps (d # s)" by simp
      then show ?thesis by blast
    next
      case 2
      with Cons.IH obtain mid rest where "s = mid @ rest" "CHR 0x0A \<notin> set mid" "match_here ps rest"
        by blast
      with 2 have "d # s = (d # mid) @ rest \<and> CHR 0x0A \<notin> set (d # mid) \<and> match_here ps rest"
        by simp
      then show ?thesis by blast
    qed
  next
    assume "\<exists>mid rest. d # s = mid @ rest \<and> CHR 0x0A \<notin> set mid \<and> match_here ps rest"
    then obtain mid rest where eq: "d # s = mid @ rest" and nl: "CHR 0x0A \<notin> set mid"
      and m: "match_here ps rest" by blast
    show "match_here (Star AnyChar # ps) (d # s)"
    proof (cases mid)
      case Nil
      with eq have "rest = d # s" by simp
      with m have "match_here ps (d # s)" by simp
      then show ?thesis by simp
    next
      case (Cons e mid')
      with eq nl have "d \<noteq> CHR 0x0A" and "s = mid' @ rest" and "CHR 0x0A \<notin> set mid'" by auto
      with m Cons.IH have "match_here (Star AnyChar # ps) s" by blast
      with \<open>d \<noteq> CHR 0x0A\<close> show ?thesis by simp
    qed
  qed
qed

lemma search_pieces_iff:
  "search_pieces ps s \<longleftrightarrow> (\<exists>pre rest. s = pre @ rest \<and> match_here ps rest)"
proof (induction s)
  case Nil
  then show ?case by simp
next
  case (Cons d s)
  show ?case
  proof
    assume "search_pieces ps (d # s)"
    then consider "match_here ps (d # s)" | "search_pieces ps s" by auto
    then show "\<exists>pre rest. d # s = pre @ rest \<and> match_here ps rest"
    proof cases
      case 1
      then have "d # s = [] @ d # s \<and> match_here ps (d # s)" by simp
      then show ?thesis by blast
    next
      case 2
      with Cons.IH obtain pre rest where "s = pre @ rest" "match_here ps rest" by blast
      then have "d # s = (d # pre) @ rest \<and> match_here ps rest" by simp
      then show ?thesis by blast
    qed
  next
    assume "\<exists>pre rest. d # s = pre @ rest \<and> match_here ps rest"
    then obtain pre rest where eq: "d # s = pre @ rest" and m: "match_here ps rest" by blast
    show "search_pieces ps (d # s)"
    proof (cases pre)
      case Nil
      with eq have "rest = d # s" by simp
      with m have "match_here ps (d # s)" by simp
      then show ?thesis by simp
    next
      case (Cons e pre')
      with eq have "s = pre' @ rest" by simp
      with m Cons.IH have "search_pieces ps s" by blast
      then show ?thesis by simp
    qed
  qed
qed

lemma re_search_two_words:
  assumes "literal a" and "literal b"
  shows "re_search (a @ ''.*'' @ b) s \<longleftrightarrow>
         (\<exists>pre mid post. s = pre @ a @ mid @ b @ post \<and> CHR 0x0A \<notin> set mid)"
proof -
  have tail: "match_here (map (\<lambda>c. One (Lit c)) b) t \<longleftrightarrow> (\<exists>post. t = b @ post)" for t
    using match_here_literal [of b "[]" t] by simp
  have "re_search (a @ ''.*'' @ b) s \<longleftrightarrow>
        search_pieces (map (\<lambda>c. One (Lit c)) a @ Star AnyChar # map (\<lambda>c. One (Lit c)) b) s"
    using assms by (simp add: re_search_def parse_literal_dot_star parse_literal)
  also have "\<dots> \<longleftrightarrow> (\<exists>pre r1. s = pre @ r1 \<and>
                 (\<exists>r2. r1 = a @ r2 \<and>
                    (\<exists>mid r3. r2 = mid @ r3 \<and> CHR 0x0A \<notin> set mid \<and> (\<exists>post. r3 = b @ post))))"
    by (simp only: search_pieces_iff match_here_literal match_here_any_star tail)
  also have "\<dots> \<longleftrightarrow> (\<exists>pre mid post. s = pre @ a @ mid @ b @ post \<and> CHR 0x0A \<notin> set mid)"
    by blast
  finally show ?thesis .
qed

lemma scan_patterns_first:
  "tbl = pre @ (i, pats) # post \<Longrightarrow> \<exists>p\<in>set pats. re_search p s \<Longrightarrow>
   \<forall>(j, qs)\<in>set pre. \<forall>q\<in>set qs. \<not> re_search q s \<Longrightarrow>
   scan_patterns tbl s = Some i"
  by (induction pre arbitrary: tbl) (auto simp: list_ex_iff)

lemma scan_patterns_none:
  "\<forall>(j, qs)\<in>set tbl. \<forall>q\<in>set qs. \<not> re_search q s \<Longrightarrow> scan_patterns tbl s = None"
  by (induction tbl) (auto simp: list_ex_iff)

lemma scan_patterns_in_table:
  "scan_patterns tbl s = Some i \<Longrightarrow> i \<in> fst ` set tbl"
  by (induction tbl) (auto split: if_splits)

text \<open>
  C1. When the context holds an expected intent, \<open>detect_intent\<close> returns it, whatever
  the text is; so with \<^verbatim>\<open>confirm_delete\<close> expected every text is classified as
  \<^verbatim>\<open>confirm_delete\<close>.
\<close>

theorem detect_intent_expected:
  "ctx_key expected_intent cc = Some e \<Longrightarrow> detect_intent txt cc = e"
  by (simp add: detect_intent_def)

theorem detect_intent_expected_witness:
  "ctx_key expected_intent (Some \<lparr>expected_intent = Some ''confirm_delete'', memory_id = None\<rparr>)
     = Some ''confirm_delete'' \<and>
   detect_intent ''please search memory of my trip''
     (Some \<lparr>expected_intent = Some ''confirm_delete'', memory_id = None\<rparr>) = ''confirm_delete''"
proof -
  let ?c = "Some \<lparr>expected_intent = Some ''confirm_delete'', memory_id = None\<rparr>"
  have h: "ctx_key expected_intent ?c = Some ''confirm_delete''"
    by (simp add: ctx_key_def)
  from h detect_intent_expected [OF h, of "''please search memory of my trip''"]
  show ?thesis by simp
qed

text \<open>
  C3. With no expected intent and a memory in focus, a text whose lower-case form
  contains \<^verbatim>\<open>change\<close>, \<^verbatim>\<open>edit\<close> or \<^verbatim>\<open>update\<close> is \<^verbatim>\<open>edit_memory\<close>; otherwise one that
  contains \<^verbatim>\<open>delete\<close> or \<^verbatim>\<open>remove\<close> is \<^verbatim>\<open>delete_memory\<close>. Neither answer looks at the
  pattern table, so the branch comes before the table scan; the text of the example,
  with \<^verbatim>\<open>mem-1\<close> in focus, is \<^verbatim>\<open>delete_memory\<close>.
\<close>

theorem detect_intent_memory_in_focus:
  assumes "ctx_key expected_intent cc = None" and "ctx_key memory_id cc = Some m"
  shows "((str_in ''change'' (lower txt) \<or> str_in ''edit'' (lower txt) \<or>
           str_in ''update'' (lower txt))
            \<longrightarrow> detect_intent txt cc = ''edit_memory'') \<and>
         (\<not> (str_in ''change'' (lower txt) \<or> str_in ''edit'' (lower txt) \<or>
             str_in ''update'' (lower txt)) \<and>
          (str_in ''delete'' (lower txt) \<or> str_in ''remove'' (lower txt))
            \<longrightarrow> detect_intent txt cc = ''delete_memory'') \<and>
         detect_intent ''I want to delete this photo''
           (Some \<lparr>expected_intent = None, memory_id = Some ''mem-1''\<rparr>) = ''delete_memory''"
proof -
  have "detect_intent ''I want to delete this photo''
          (Some \<lparr>expected_intent = None, memory_id = Some ''mem-1''\<rparr>) = ''delete_memory''"
    by code_simp
  with assms show ?thesis
    by (simp add: detect_intent_def Let_def)
qed

text \<open>
  The instance takes a text that the pattern table alone reads as \<^verbatim>\<open>search_memory\<close>:
  with a memory in focus its \<^verbatim>\<open>remove\<close> decides first. A second text shows the
  \<^verbatim>\<open>edit_memory\<close> case.
\<close>

theorem detect_intent_memory_in_focus_witness:
  "ctx_key expected_intent (Some \<lparr>expected_intent = None, memory_id = Some ''mem-1''\<rparr>) = None \<and>
   ctx_key memory_id (Some \<lparr>expected_intent = None, memory_id = Some ''mem-1''\<rparr>) = Some ''mem-1'' \<and>
   \<not> (str_in ''change'' (lower ''Search memory, then REMOVE it'') \<or>
      str_in ''edit'' (lower ''Search memory, then REMOVE it'') \<or>
      str_in ''update'' (lower ''Search memory, then REMOVE it'')) \<and>
   str_in ''remove'' (lower ''Search memory, then REMOVE it'') \<and>
   detect_intent ''Search memory, then REMOVE it''
     (Some \<lparr>expected_intent = None, memory_id = Some ''mem-1''\<rparr>) = ''delete_memory'' \<and>
   detect_intent ''Search memory, then REMOVE it'' None = ''search_memory'' \<and>
   str_in ''update'' (lower ''Update the title'') \<and>
   detect_intent ''Update the title''
     (Some \<lparr>expected_intent = None, memory_id = Some ''mem-1''\<rparr>) = ''edit_memory''"
proof -
  let ?cc = "Some \<lparr>expected_intent = None, memory_id = Some ''mem-1''\<rparr>"
  let ?t = "''Search memory, then REMOVE it''"
  let ?u = "''Update the title''"
  have e: "ctx_key expected_intent ?cc = None" and m: "ctx_key memory_id ?cc = Some ''mem-1''"
    by (simp_all add: ctx_key_def)
  have no_edit: "\<not> (str_in ''change'' (lower ?t) \<or> str_in ''edit'' (lower ?t) \<or>
                    str_in ''update'' (lower ?t))"
    by code_simp
  have rem: "str_in ''remove'' (lower ?t)"
    by code_simp
  have upd: "str_in ''update'' (lower ?u)"
    by code_simp
  have tbl: "detect_intent ?t None = ''search_memory''"
    by code_simp
  from detect_intent_memory_in_focus [OF e m, of ?t] no_edit rem
  have d: "detect_intent ?t ?cc = ''delete_memory''" by blast
  from detect_intent_memory_in_focus [OF e m, of ?u] upd
  have u: "detect_intent ?u ?cc = ''edit_memory''" by blast
  from e m no_edit rem upd tbl d u show ?thesis by blast
qed

text \<open>
  C4. With neither an expected intent nor a memory in focus, \<open>detect_intent\<close> goes
  through the pattern table in its order (\<^verbatim>\<open>save_memory\<close>, \<^verbatim>\<open>search_memory\<close>,
  \<^verbatim>\<open>delete_memory\<close>, \<^verbatim>\<open>edit_memory\<close>, \<^verbatim>\<open>update_name\<close>, \<^verbatim>\<open>update_avatar\<close>,
  \<^verbatim>\<open>update_password\<close>) and returns the intent of the first entry one of whose patterns
  is found in the lower-case text; when no pattern of the table is found it returns
  \<^verbatim>\<open>chat\<close>. It always returns an intent of the table or \<^verbatim>\<open>chat\<close>, and the text
  \<^verbatim>\<open>please search memory of my trip\<close> is \<^verbatim>\<open>search_memory\<close>.
\<close>

theorem detect_intent_table_scan:
  assumes "ctx_key expected_intent cc = None" and "ctx_key memory_id cc = None"
  shows "map fst intent_patterns =
           [''save_memory'', ''search_memory'', ''delete_memory'', ''edit_memory'',
            ''update_name'', ''update_avatar'', ''update_password''] \<and>
         (\<forall>pre i pats post.
            intent_patterns = pre @ (i, pats) # post \<and>
            (\<exists>p\<in>set pats. re_search p (lower txt)) \<and>
            (\<forall>(j, qs)\<in>set pre. \<forall>q\<in>set qs. \<not> re_search q (lower txt))
            \<longrightarrow> detect_intent txt cc = i) \<and>
         ((\<forall>(j, qs)\<in>set intent_patterns. \<forall>q\<in>set qs. \<not> re_search q (lower txt))
            \<longrightarrow> detect_intent txt cc = ''chat'') \<and>
         detect_intent txt cc \<in> insert ''chat'' (fst ` set intent_patterns) \<and>
         detect_intent ''please search memory of my trip'' None = ''search_memory''"
proof (intro conjI allI impI)
  show "map fst intent_patterns =
           [''save_memory'', ''search_memory'', ''delete_memory'', ''edit_memory'',
            ''update_name'', ''update_avatar'', ''update_password'']"
    by (simp add: intent_patterns_def)
next
  fix pre i pats post
  assume "intent_patterns = pre @ (i, pats) # post \<and>
            (\<exists>p\<in>set pats. re_search p (lower txt)) \<and>
            (\<forall>(j, qs)\<in>set pre. \<forall>q\<in>set qs. \<not> re_search q (lower txt))"
  then have "scan_patterns intent_patterns (lower txt) = Some i"
    using scan_patterns_first by blast
  with assms show "detect_intent txt cc = i"
    by (simp add: detect_intent_def Let_def)
next
  assume "\<forall>(j, qs)\<in>set intent_patterns. \<forall>q\<in>set qs. \<not> re_search q (lower txt)"
  then have "scan_patterns intent_patterns (lower txt) = None"
    by (rule scan_patterns_none)
  with assms show "detect_intent txt cc = ''chat''"
    by (simp add: detect_intent_def Let_def)
next
  show "detect_intent txt cc \<in> insert ''chat'' (fst ` set intent_patterns)"
  proof (cases "scan_patterns intent_patterns (lower txt)")
    case None
    with assms show ?thesis by (simp add: detect_intent_def Let_def)
  next
    case (Some i)
    then have "i \<in> fst ` set intent_patterns" by (rule scan_patterns_in_table)
    with Some assms show ?thesis by (simp add: detect_intent_def Let_def)
  qed
next
  show "detect_intent ''please search memory of my trip'' None = ''search_memory''"
    by code_simp
qed

text \<open>
  An instance: in the example text no \<^verbatim>\<open>save_memory\<close> pattern is found and the first
  \<^verbatim>\<open>search_memory\<close> pattern is; in \<^verbatim>\<open>Hello there\<close> no pattern is found at all.
\<close>

theorem detect_intent_table_scan_witness:
  "ctx_key expected_intent None = None \<and> ctx_key memory_id None = None \<and>
   intent_patterns = [hd intent_patterns] @ (''search_memory'', snd (intent_patterns ! 1)) #
                       drop 2 intent_patterns \<and>
   list_ex (\<lambda>p. re_search p (lower ''please search memory of my trip''))
     (snd (intent_patterns ! 1)) \<and>
   list_all (\<lambda>q. \<not> re_search q (lower ''please search memory of my trip''))
     (snd (hd intent_patterns)) \<and>
   detect_intent ''please search memory of my trip'' None = ''search_memory'' \<and>
   list_all (\<lambda>q. \<not> re_search q (lower ''Hello there'')) (concat (map snd intent_patterns)) \<and>
   detect_intent ''Hello there'' None = ''chat''"
proof -
  let ?t = "''please search memory of my trip''"
  have e: "ctx_key expected_intent None = None" and m: "ctx_key memory_id None = None"
    by (simp_all add: ctx_key_def)
  have split: "intent_patterns = [hd intent_patterns] @
                 (''search_memory'', snd (intent_patterns ! 1)) # drop 2 intent_patterns"
    by (simp add: intent_patterns_def)
  have found': "list_ex (\<lambda>p. re_search p (lower ?t)) (snd (intent_patterns ! 1))"
    by code_simp
  then have found: "\<exists>p\<in>set (snd (intent_patterns ! 1)). re_search p (lower ?t)"
    by (simp add: list_ex_iff)
  have before': "list_all (\<lambda>q. \<not> re_search q (lower ?t)) (snd (hd intent_patterns))"
    by code_simp
  then have before: "\<forall>(j, qs)\<in>set [hd intent_patterns]. \<forall>q\<in>set qs. \<not> re_search q (lower ?t)"
    by (simp add: list_all_iff case_prod_beta)
  have no_match': "list_all (\<lambda>q. \<not> re_search q (lower ''Hello there''))
                     (concat (map snd intent_patterns))"
    by code_simp
  then have no_match: "\<forall>(j, qs)\<in>set intent_patterns. \<forall>q\<in>set qs.
                          \<not> re_search q (lower ''Hello there'')"
    by (auto simp: list_all_iff)
  note first = detect_intent_table_scan [OF e m, of ?t, THEN conjunct2, THEN conjunct1,
                 rule_format, of "[hd intent_patterns]" "''search_memory''"
                   "snd (intent_patterns ! 1)" "drop 2 intent_patterns"]
  have s: "detect_intent ?t None = ''search_memory''"
    by (rule first) (intro conjI split found before)
  note imp = detect_intent_table_scan [OF e m, of "''Hello there''",
                 THEN conjunct2, THEN conjunct2, THEN conjunct1]
  have c: "detect_intent ''Hello there'' None = ''chat''"
    by (rule mp [OF imp no_match])
  from e m split found' before' no_match' s c show ?thesis by blast
qed

section \<open>Properties of the message identifiers\<close>

declare str_digits.simps [simp del]

lemma digits_inj: "i < 16 \<Longrightarrow> j < 16 \<Longrightarrow> digits ! i = digits ! j \<Longrightarrow> i = j"
proof -
  have "distinct digits" and "length digits = 16" by (simp_all add: digits_def)
  then show "i < 16 \<Longrightarrow> j < 16 \<Longrightarrow> digits ! i = digits ! j \<Longrightarrow> i = j"
    by (simp add: nth_eq_iff_index_eq)
qed

lemma digits_not_minus: "i < 16 \<Longrightarrow> digits ! i \<noteq> CHR ''-''"
proof -
  assume "i < 16"
  moreover have "length digits = 16" by (simp add: digits_def)
  ultimately have "digits ! i \<in> set digits" by (intro nth_mem) simp
  moreover have "CHR ''-'' \<notin> set digits" by (simp add: digits_def)
  ultimately show ?thesis by metis
qed

lemma str_digits_small: "n < 10 \<Longrightarrow> str_digits n = [digits ! nat n]"
  by (subst str_digits.simps) simp

lemma str_digits_large:
  "\<not> n < 10 \<Longrightarrow> str_digits n = str_digits (n div 10) @ [digits ! nat (n mod 10)]"
  by (subst str_digits.simps) simp

lemma str_digits_nonempty: "str_digits n \<noteq> []"
  by (cases "n < 10") (simp_all add: str_digits_small str_digits_large)

lemma str_digits_inj: "0 \<le> m \<Longrightarrow> 0 \<le> n \<Longrightarrow> str_digits m = str_digits n \<Longrightarrow> m = n"
proof (induction m arbitrary: n rule: str_digits.induct)
  case (1 m)
  show ?case
  proof (cases "m < 10")
    case True
    show ?thesis
    proof (cases "n < 10")
      case True
      with \<open>m < 10\<close> "1.prems" have "digits ! nat m = digits ! nat n"
        by (simp add: str_digits_small)
      moreover from \<open>m < 10\<close> True have "nat m < 16" and "nat n < 16" by simp_all
      ultimately have "nat m = nat n" by (intro digits_inj)
      with "1.prems" show ?thesis by simp
    next
      case False
      with \<open>m < 10\<close> "1.prems" have "str_digits (n div 10) = []"
        by (simp add: str_digits_small str_digits_large)
      with str_digits_nonempty show ?thesis by blast
    qed
  next
    case False
    show ?thesis
    proof (cases "n < 10")
      case True
      with False "1.prems" have "str_digits (m div 10) = []"
        by (simp add: str_digits_small str_digits_large)
      with str_digits_nonempty show ?thesis by blast
    next
      case nf: False
      with False "1.prems" have a: "str_digits (m div 10) = str_digits (n div 10)"
        and b: "digits ! nat (m mod 10) = digits ! nat (n mod 10)"
        by (simp_all add: str_digits_large)
      from "1.prems" have "0 \<le> m div 10" and "0 \<le> n div 10" by simp_all
      with "1.IH" [OF False _ _ a] have q: "m div 10 = n div 10" by blast
      have "nat (m mod 10) < 16" and "nat (n mod 10) < 16" by simp_all
      with b have "nat (m mod 10) = nat (n mod 10)" by (intro digits_inj)
      then have "m mod 10 = n mod 10" by simp
      with q show ?thesis by (metis div_mult_mod_eq)
    qed
  qed
qed

lemma str_digits_hd: "0 \<le> n \<Longrightarrow> hd (str_digits n) \<noteq> CHR ''-''"
proof (induction n rule: str_digits.induct)
  case (1 n)
  show ?case
  proof (cases "n < 10")
    case True
    then have "nat n < 16" by simp
    with True show ?thesis by (simp add: str_digits_small digits_not_minus)
  next
    case False
    from "1.prems" have "0 \<le> n div 10" by simp
    with "1.IH" [OF False] have "hd (str_digits (n div 10)) \<noteq> CHR ''-''" by blast
    with False str_digits_nonempty [of "n div 10"] show ?thesis
      by (simp add: str_digits_large)
  qed
qed

lemma str_int_inj: "str_int i = str_int j \<Longrightarrow> i = j"
proof -
  assume eq: "str_int i = str_int j"
  have neg_pos: False if "a < 0" "\<not> b < 0" "str_int a = str_int b" for a b
  proof -
    from that have "CHR ''-'' # str_digits (- a) = str_digits b"
      by (simp add: str_int_def)
    then have "hd (str_digits b) = CHR ''-''" by (metis list.sel(1))
    with str_digits_hd [of b] that show False by simp
  qed
  show ?thesis
  proof (cases "i < 0"; cases "j < 0")
    assume "i < 0" "j < 0"
    with eq have "str_digits (- i) = str_digits (- j)" by (simp add: str_int_def)
    with \<open>i < 0\<close> \<open>j < 0\<close> have "- i = - j" by (intro str_digits_inj) simp_all
    then show ?thesis by simp
  next
    assume "i < 0" "\<not> j < 0"
    with eq neg_pos show ?thesis by blast
  next
    assume "\<not> i < 0" "j < 0"
    with eq neg_pos [of j i] show ?thesis by simp
  next
    assume "\<not> i < 0" "\<not> j < 0"
    with eq have "str_digits i = str_digits j" by (simp add: str_int_def)
    with \<open>\<not> i < 0\<close> \<open>\<not> j < 0\<close> show ?thesis by (intro str_digits_inj) simp_all
  qed
qed

lemma hex_byte_inj: "hex_byte a = hex_byte b \<Longrightarrow> a = b"
proof -
  assume "hex_byte a = hex_byte b"
  then have d: "digits ! (unat a div 16) = digits ! (unat b div 16)"
    and m: "digits ! (unat a mod 16) = digits ! (unat b mod 16)"
    by (simp_all add: hex_byte_def)
  have la: "unat a < 256" and lb: "unat b < 256"
    using unsigned_less [of a] unsigned_less [of b] by simp_all
  have "unat a div 16 = unat b div 16"
    using la lb by (intro digits_inj [OF _ _ d]) simp_all
  moreover have "unat a mod 16 = unat b mod 16"
    by (intro digits_inj [OF _ _ m]) simp_all
  ultimately have "unat a = unat b" by (metis div_mult_mod_eq)
  then show ?thesis by (simp add: word_unat_eq_iff)
qed

lemma token_hex_length: "length (token_hex bs) = 2 * length bs"
  by (induction bs) (simp_all add: token_hex_def hex_byte_def)

lemma token_hex_inj: "token_hex xs = token_hex ys \<Longrightarrow> length xs = length ys \<Longrightarrow> xs = ys"
proof (induction xs ys rule: list_induct2')
  case (4 x xs y ys)
  from "4.prems" have "hex_byte x @ token_hex xs = hex_byte y @ token_hex ys"
    by (simp add: token_hex_def)
  moreover have "length (hex_byte x) = length (hex_byte y)" by (simp add: hex_byte_def)
  ultimately have "hex_byte x = hex_byte y" and "token_hex xs = token_hex ys" by simp_all
  with "4.IH" "4.prems" hex_byte_inj show ?case by auto
qed simp_all

lemma generate_message_id_unfold:
  "generate_message_id p t r = p @ ''-'' @ (str_int (trunc_div t 1000) @ ''-'') @ token_hex r"
  unfolding generate_message_id_def Let_def by simp

lemma generate_message_id_eq_iff:
  assumes "length r1 = length r2"
  shows "generate_message_id p t1 r1 = generate_message_id p t2 r2 \<longleftrightarrow>
         trunc_div t1 1000 = trunc_div t2 1000 \<and> r1 = r2"
proof
  let ?a1 = "str_int (trunc_div t1 1000) @ ''-''" and ?a2 = "str_int (trunc_div t2 1000) @ ''-''"
  assume "generate_message_id p t1 r1 = generate_message_id p t2 r2"
  then have "p @ ''-'' @ ?a1 @ token_hex r1 = p @ ''-'' @ ?a2 @ token_hex r2"
    by (simp only: generate_message_id_unfold)
  then have eq: "?a1 @ token_hex r1 = ?a2 @ token_hex r2"
    by (simp only: same_append_eq)
  have len: "length (token_hex r1) = length (token_hex r2)"
    using assms by (simp only: token_hex_length)
  from eq len have "?a1 = ?a2 \<and> token_hex r1 = token_hex r2"
    using append_eq_append_conv [of ?a1 ?a2 "token_hex r1" "token_hex r2"] by blast
  then have "str_int (trunc_div t1 1000) = str_int (trunc_div t2 1000)"
    and "token_hex r1 = token_hex r2"
    by (simp_all only: append_same_eq)
  then show "trunc_div t1 1000 = trunc_div t2 1000 \<and> r1 = r2"
    using assms str_int_inj token_hex_inj by blast
next
  assume "trunc_div t1 1000 = trunc_div t2 1000 \<and> r1 = r2"
  then show "generate_message_id p t1 r1 = generate_message_id p t2 r2"
    by (simp only: generate_message_id_unfold)
qed

text \<open>
  C8, as stated, fails: the identifier is a function of the millisecond of the clock and
  of the random bytes, so two calls at different instants of one millisecond that draw
  the same four bytes return the same identifier, also through the renderer.
\<close>

theorem generate_message_id_collision:
  "generate_message_id ''ai'' 1700000000000123 [0x12, 0x34, 0xAB, 0xCD] =
   generate_message_id ''ai'' 1700000000000456 [0x12, 0x34, 0xAB, 0xCD] \<and>
   msgId (generate_response ''chat'' None None 1700000000000123 [0x12, 0x34, 0xAB, 0xCD]
            1700000000000130) =
   msgId (generate_response ''chat'' None None 1700000000000456 [0x12, 0x34, 0xAB, 0xCD]
            1700000000000460)"
  by code_simp

text \<open>
  C8, amended. An identifier is the prefix, the millisecond timestamp in decimal and the
  hexadecimal text of the random bytes (eight digits for four bytes), joined by hyphens.
  Two calls with the same prefix, each drawing four bytes, return the same identifier
  exactly when they read the same millisecond and draw the same bytes; the same holds
  for the \<^verbatim>\<open>msgId\<close> of two rendered responses.
\<close>

theorem generate_message_id_distinct:
  assumes "length r1 = 4" and "length r2 = 4"
  shows "generate_message_id p t1 r1 =
           p @ ''-'' @ str_int (trunc_div t1 1000) @ ''-'' @ token_hex r1 \<and>
         length (token_hex r1) = 8 \<and>
         ((generate_message_id p t1 r1 = generate_message_id p t2 r2) =
            (trunc_div t1 1000 = trunc_div t2 1000 \<and> r1 = r2)) \<and>
         ((msgId (generate_response i1 u1 c1 t1 r1 n1) =
           msgId (generate_response i2 u2 c2 t2 r2 n2)) =
            (trunc_div t1 1000 = trunc_div t2 1000 \<and> r1 = r2))"
proof -
  from assms have len: "length r1 = length r2" by simp
  have form: "generate_message_id p t1 r1 =
                p @ ''-'' @ str_int (trunc_div t1 1000) @ ''-'' @ token_hex r1"
    by (simp add: generate_message_id_unfold)
  have eight: "length (token_hex r1) = 8"
    using assms by (simp add: token_hex_length)
  have ids: "msgId (generate_response i1 u1 c1 t1 r1 n1) = generate_message_id ''ai'' t1 r1"
    "msgId (generate_response i2 u2 c2 t2 r2 n2) = generate_message_id ''ai'' t2 r2"
    by (simp_all add: generate_response_def generate_ai_message_id_def Let_def)
  have same: "(generate_message_id p t1 r1 = generate_message_id p t2 r2) =
                (trunc_div t1 1000 = trunc_div t2 1000 \<and> r1 = r2)"
    by (rule generate_message_id_eq_iff [OF len])
  have rendered: "(msgId (generate_response i1 u1 c1 t1 r1 n1) =
                   msgId (generate_response i2 u2 c2 t2 r2 n2)) =
                  (trunc_div t1 1000 = trunc_div t2 1000 \<and> r1 = r2)"
    by (simp only: ids generate_message_id_eq_iff [OF len])
  from form eight same rendered show ?thesis
    by (intro conjI)
qed

theorem generate_message_id_distinct_witness:
  "length [0x12, 0x34, 0xAB, 0xCD :: 8 word] = 4 \<and>
   generate_message_id ''ai'' 1700000000000123 [0x12, 0x34, 0xAB, 0xCD] =
     ''ai-1700000000000-1234abcd'' \<and>
   generate_message_id ''ai'' 1700000000000123 [0x12, 0x34, 0xAB, 0xCD] \<noteq>
   generate_message_id ''ai'' 1700000000001123 [0x12, 0x34, 0xAB, 0xCD]"
proof -
  let ?r = "[0x12, 0x34, 0xAB, 0xCD :: 8 word]"
  have l: "length ?r = 4" by simp
  have "trunc_div 1700000000000123 1000 \<noteq> trunc_div 1700000000001123 1000"
    by (simp add: trunc_div_def)
  with generate_message_id_distinct [OF l l, of "''ai''" 1700000000000123 1700000000001123]
  have "generate_message_id ''ai'' 1700000000000123 ?r \<noteq>
        generate_message_id ''ai'' 1700000000001123 ?r"
    by blast
  moreover have "generate_message_id ''ai'' 1700000000000123 ?r = ''ai-1700000000000-1234abcd''"
    by code_simp
  ultimately show ?thesis using l by blast
qed

text \<open>
  C7. The renderer never picks a chat variant: the template of \<^verbatim>\<open>chat\<close> is a list, the
  code fills the content only from a template that is a string, and so the content of a
  rendered \<^verbatim>\<open>chat\<close> response is the empty string, which is none of the variants.
\<close>

theorem chat_content_is_empty:
  "content (generate_response ''chat'' user_data ctx id_time id_random now) = [] \<and>
   content (generate_response ''chat'' user_data ctx id_time id_random now) \<notin> set chat_variants"
  by (simp add: generate_response_def intent_responses_def chat_variants_def Let_def)

section \<open>Properties of the history retrieval\<close>

lemma sqlite_order_desc_orders: "orders_by_timestamp_desc sqlite_order_desc"
proof -
  have "sorted (rev (map m_timestamp (sort_key (\<lambda>m. - m_timestamp m) rows)))" for rows
  proof -
    have "sorted (map (\<lambda>m. - m_timestamp m) (sort_key (\<lambda>m. - m_timestamp m) rows))"
      by (rule sorted_sort_key)
    then have "sorted (map uminus (map m_timestamp (sort_key (\<lambda>m. - m_timestamp m) rows)))"
      by (simp add: comp_def)
    then show ?thesis
      by (simp add: sorted_wrt_rev sorted_map sorted_wrt_map)
  qed
  then have "\<forall>rows. sorted (rev (map m_timestamp (sqlite_order_desc rows)))"
    unfolding sqlite_order_desc_def by blast
  moreover have "\<forall>rows. mset (sqlite_order_desc rows) = mset rows"
    by (simp add: sqlite_order_desc_def)
  ultimately show ?thesis
    unfolding orders_by_timestamp_desc_def by blast
qed

lemma d_timestamp_to_dict: "map d_timestamp (map to_dict ms) = map m_timestamp ms"
  by (simp add: to_dict_def)

text \<open>
  What holds for every engine: the history returned is sorted by timestamp, oldest
  first; it holds \<open>n\<close> messages, or all of the user's when there are fewer; and some
  list \<open>older\<close> of the remaining messages of the user put in front of the returned ones
  gives all the user's messages sorted by timestamp. Among messages of one timestamp
  this says nothing of their order, nor of which of them are returned.
\<close>

lemma get_conversation_history_sorted_tail:
  assumes "orders_by_timestamp_desc order_desc"
  shows "sorted (map d_timestamp (get_conversation_history order_desc db user_id n)) \<and>
         length (get_conversation_history order_desc db user_id n) =
           min n (length (filter (\<lambda>m. m_user_id m = user_id) (messages db))) \<and>
         (\<exists>older kept.
            get_conversation_history order_desc db user_id n = map to_dict kept \<and>
            mset (older @ kept) = mset (filter (\<lambda>m. m_user_id m = user_id) (messages db)) \<and>
            sorted (map m_timestamp (older @ kept)))"
proof -
  let ?all = "filter (\<lambda>m. m_user_id m = user_id) (messages db)"
  let ?s = "order_desc ?all"
  let ?kept = "rev (take n ?s)" and ?older = "rev (drop n ?s)"
  from assms have perm: "mset ?s = mset ?all" and desc: "sorted (rev (map m_timestamp ?s))"
    by (simp_all add: orders_by_timestamp_desc_def)
  have res: "get_conversation_history order_desc db user_id n = map to_dict ?kept"
    by (simp add: get_conversation_history_def)
  have whole: "?older @ ?kept = rev ?s"
    by (metis append_take_drop_id rev_append)
  have sorted_whole: "sorted (map m_timestamp (?older @ ?kept))"
    using desc by (simp only: whole rev_map)
  then have sorted_kept: "sorted (map m_timestamp ?kept)"
    by (simp only: map_append sorted_append)
  have "length ?s = length ?all"
    using perm by (rule mset_eq_length)
  then have len: "length (map to_dict ?kept) = min n (length ?all)"
    by (simp add: min.commute)
  have "mset (?older @ ?kept) = mset ?all"
    using perm by (simp only: whole mset_rev)
  with sorted_whole have ex: "\<exists>older kept.
      get_conversation_history order_desc db user_id n = map to_dict kept \<and>
      mset (older @ kept) = mset ?all \<and> sorted (map m_timestamp (older @ kept))"
    using res by blast
  from sorted_kept have "sorted (map d_timestamp (map to_dict ?kept))"
    by (simp only: d_timestamp_to_dict)
  then have srt: "sorted (map d_timestamp (get_conversation_history order_desc db user_id n))"
    by (simp only: res)
  from len have "length (get_conversation_history order_desc db user_id n) = min n (length ?all)"
    by (simp only: res)
  with srt ex show ?thesis by (intro conjI)
qed

text \<open>
  C9. The history is not the last messages persisted, oldest first, when timestamps
  tie, and the two rows of a turn tie. After the first turn of a user the table holds
  the user's message and then the reply, both of the same second. With the limit 1 the
  history is the user's message, not the reply that was persisted last; with the limit
  2 it is the reply followed by the user's message, the reverse of the order in which
  they were persisted.
\<close>

theorem history_ties_out_of_order:
  "map m_sender (messages example_after_turn) = [''user'', ''ai''] \<and>
   map m_timestamp (messages example_after_turn) = [1700000000, 1700000000] \<and>
   map d_sender (get_conversation_history sqlite_order_desc example_after_turn ''u1'' 1)
     = [''user''] \<and>
   map d_sender (get_conversation_history sqlite_order_desc example_after_turn ''u1'' 2)
     = [''ai'', ''user'']"
  by code_simp

section \<open>Properties of a turn\<close>

lemma render_intent: "intent (render env i u c) = i"
  by (simp add: render_def generate_response_def Let_def)

lemma handle_normal_chat_result:
  "\<exists>r. fst (handle_normal_chat env db user_id request) = Inr r \<and> intent r = ''chat''"
  by (simp add: handle_normal_chat_def Let_def render_intent)

lemma process_message_not_dispatched:
  assumes "detect_intent (rq_text rq) cc \<notin>
             {''save_memory'', ''search_memory'', ''delete_memory'', ''edit_memory'',
              ''update_name'', ''update_avatar'', ''update_password''}"
  shows "\<exists>r. fst (process_message env db user_id rq cc) = Inr r \<and> intent r = ''chat''"
proof -
  let ?db1 = "create_user_message db user_id (rq_text rq) ''user''
                [''imageUrl'' \<mapsto> opt_str (rq_imageUrl rq)]
                (user_id_time env) (user_id_random env) (user_row_time env)"
  from assms have "process_message env db user_id rq cc = handle_normal_chat env ?db1 user_id rq"
    by (simp add: process_message_def Let_def)
  with handle_normal_chat_result [of env ?db1 user_id rq] show ?thesis by simp
qed

lemma update_context_other_intent:
  "intent r \<notin> set continuation_intents \<Longrightarrow> intent r \<notin> set completion_intents \<Longrightarrow>
   update_context cs user_id uc rq r = cs"
  by (simp add: update_context_def)

lemma update_context_other_user:
  "u \<noteq> user_id \<Longrightarrow> update_context cs user_id uc rq r u = cs u"
  by (simp add: update_context_def Let_def split: option.splits)

lemma send_chat_message_result:
  "process_message env (db_of st) user_id rq
     (Some (case conversation_contexts st user_id of None \<Rightarrow> empty_context | Some c \<Rightarrow> c))
     = (Inr r, db1) \<Longrightarrow>
   send_chat_message env st user_id rq =
     (Inr r, \<lparr>db_of = db1,
              conversation_contexts =
                update_context (conversation_contexts st) user_id
                  (case conversation_contexts st user_id of None \<Rightarrow> empty_context | Some c \<Rightarrow> c)
                  rq r\<rparr>)"
  by (simp add: send_chat_message_def Let_def)

lemma send_chat_message_other_user:
  "u \<noteq> user_id \<Longrightarrow>
   conversation_contexts (snd (send_chat_message env st user_id rq)) u = conversation_contexts st u"
  by (auto simp: send_chat_message_def Let_def update_context_other_user
           split: prod.splits sum.splits)

lemma send_chat_message_armed:
  assumes "conversation_contexts st user_id = Some c" and "expected_intent c = Some e"
    and "e \<notin> {''save_memory'', ''search_memory'', ''delete_memory'', ''edit_memory'',
               ''update_name'', ''update_avatar'', ''update_password''}"
  shows "(\<exists>r. fst (send_chat_message env st user_id rq) = Inr r \<and> intent r = ''chat'') \<and>
         conversation_contexts (snd (send_chat_message env st user_id rq)) = conversation_contexts st"
proof -
  from assms(2) have "detect_intent (rq_text rq) (Some c) = e"
    by (simp add: detect_intent_def ctx_key_def)
  with assms(3) process_message_not_dispatched [of rq "Some c" env "db_of st" user_id]
  obtain r where r: "fst (process_message env (db_of st) user_id rq (Some c)) = Inr r"
    and chat: "intent r = ''chat''" by auto
  then obtain db1 where pm: "process_message env (db_of st) user_id rq (Some c) = (Inr r, db1)"
    by (cases "process_message env (db_of st) user_id rq (Some c)") simp
  with assms(1) have "send_chat_message env st user_id rq =
      (Inr r, \<lparr>db_of = db1,
               conversation_contexts = update_context (conversation_contexts st) user_id c rq r\<rparr>)"
    using send_chat_message_result [of env st user_id rq r db1] by simp
  moreover from chat have "update_context (conversation_contexts st) user_id c rq r =
      conversation_contexts st"
    by (intro update_context_other_intent)
       (simp_all add: continuation_intents_def completion_intents_def)
  ultimately show ?thesis using chat by simp
qed

lemma turns_keep_armed:
  assumes "expected_intent c = Some e"
    and "e \<notin> {''save_memory'', ''search_memory'', ''delete_memory'', ''edit_memory'',
               ''update_name'', ''update_avatar'', ''update_password''}"
  shows "conversation_contexts st user_id = Some c \<Longrightarrow>
         conversation_contexts
           (fold (\<lambda>(env, u, rq) s. snd (send_chat_message env s u rq)) turns st) user_id = Some c"
proof (induction turns arbitrary: st)
  case Nil
  then show ?case by simp
next
  case (Cons turn turns)
  obtain env u rq where turn: "turn = (env, u, rq)" by (cases turn)
  have "conversation_contexts (snd (send_chat_message env st u rq)) user_id = Some c"
  proof (cases "u = user_id")
    case True
    with send_chat_message_armed [OF _ assms, of st user_id env rq] Cons.prems
    show ?thesis by simp
  next
    case False
    then have "user_id \<noteq> u" by blast
    with send_chat_message_other_user [of user_id u env st rq] Cons.prems
    show ?thesis by simp
  qed
  with Cons.IH [of "snd (send_chat_message env st u rq)"] turn show ?case by simp
qed

text \<open>
  C2. A turn that produced a response ends with the context dictionary that
  \<open>update_context\<close> computes from the response, and that depends on the response only
  through its intent. For an intent of \<^verbatim>\<open>save_memory\<close>, \<^verbatim>\<open>add_description\<close>,
  \<^verbatim>\<open>edit_memory\<close>, \<^verbatim>\<open>confirm_delete\<close>, \<^verbatim>\<open>update_password\<close> the user's context gets the
  intent as its expected intent and, when the request carried a memory id (a string
  that is not empty), that id; an id already in the context stays otherwise. For an
  intent of \<^verbatim>\<open>memory_saved\<close>, \<^verbatim>\<open>memory_deleted\<close>, \<^verbatim>\<open>memory_updated\<close>, \<^verbatim>\<open>name_changed\<close>,
  \<^verbatim>\<open>avatar_updated\<close>, \<^verbatim>\<open>password_updated\<close> the user's entry is deleted. For every other
  intent the dictionary is unchanged.
\<close>

theorem context_transition:
  "(\<forall>r db1.
      process_message env (db_of st) user_id rq
        (Some (case conversation_contexts st user_id of None \<Rightarrow> empty_context | Some c \<Rightarrow> c))
        = (Inr r, db1) \<longrightarrow>
      send_chat_message env st user_id rq =
        (Inr r, \<lparr>db_of = db1,
                 conversation_contexts =
                   update_context (conversation_contexts st) user_id
                     (case conversation_contexts st user_id of None \<Rightarrow> empty_context | Some c \<Rightarrow> c)
                     rq r\<rparr>)) \<and>
   (intent r \<in> {''save_memory'', ''add_description'', ''edit_memory'', ''confirm_delete'',
                 ''update_password''} \<longrightarrow>
      update_context cs user_id uc rq r =
        cs(user_id \<mapsto> uc\<lparr>expected_intent := Some (intent r),
                           memory_id := (case truthy_value (rq_memoryId rq) of
                                           Some m \<Rightarrow> Some m
                                         | None \<Rightarrow> memory_id uc)\<rparr>)) \<and>
   (intent r \<in> {''memory_saved'', ''memory_deleted'', ''memory_updated'', ''name_changed'',
                 ''avatar_updated'', ''password_updated''} \<longrightarrow>
      update_context cs user_id uc rq r = cs(user_id := None)) \<and>
   (intent r \<notin> {''save_memory'', ''add_description'', ''edit_memory'', ''confirm_delete'',
                 ''update_password'', ''memory_saved'', ''memory_deleted'', ''memory_updated'',
                 ''name_changed'', ''avatar_updated'', ''password_updated''} \<longrightarrow>
      update_context cs user_id uc rq r = cs) \<and>
   (intent r = intent r' \<longrightarrow>
      update_context cs user_id uc rq r = update_context cs user_id uc rq r')"
proof (intro conjI allI impI)
  fix r db1
  assume "process_message env (db_of st) user_id rq
            (Some (case conversation_contexts st user_id of None \<Rightarrow> empty_context | Some c \<Rightarrow> c))
            = (Inr r, db1)"
  then show "send_chat_message env st user_id rq =
        (Inr r, \<lparr>db_of = db1,
                 conversation_contexts =
                   update_context (conversation_contexts st) user_id
                     (case conversation_contexts st user_id of None \<Rightarrow> empty_context | Some c \<Rightarrow> c)
                     rq r\<rparr>)"
    by (rule send_chat_message_result)
next
  assume "intent r \<in> {''save_memory'', ''add_description'', ''edit_memory'', ''confirm_delete'',
                       ''update_password''}"
  then have "intent r \<in> set continuation_intents"
    by (simp add: continuation_intents_def)
  then show "update_context cs user_id uc rq r =
        cs(user_id \<mapsto> uc\<lparr>expected_intent := Some (intent r),
                           memory_id := (case truthy_value (rq_memoryId rq) of
                                           Some m \<Rightarrow> Some m
                                         | None \<Rightarrow> memory_id uc)\<rparr>)"
    by (cases "truthy_value (rq_memoryId rq)") (simp_all add: update_context_def Let_def)
next
  assume a: "intent r \<in> {''memory_saved'', ''memory_deleted'', ''memory_updated'',
                          ''name_changed'', ''avatar_updated'', ''password_updated''}"
  then have "intent r \<in> set completion_intents"
    by (simp add: completion_intents_def)
  moreover from a have "intent r \<notin> set continuation_intents"
    by (auto simp: continuation_intents_def)
  ultimately show "update_context cs user_id uc rq r = cs(user_id := None)"
    by (simp add: update_context_def)
next
  assume "intent r \<notin> {''save_memory'', ''add_description'', ''edit_memory'', ''confirm_delete'',
                 ''update_password'', ''memory_saved'', ''memory_deleted'', ''memory_updated'',
                 ''name_changed'', ''avatar_updated'', ''password_updated''}"
  then show "update_context cs user_id uc rq r = cs"
    by (intro update_context_other_intent)
       (simp_all add: continuation_intents_def completion_intents_def)
next
  assume "intent r = intent r'"
  then show "update_context cs user_id uc rq r = update_context cs user_id uc rq r'"
    by (simp add: update_context_def)
qed

text \<open>
  An instance: the first message of a user, \<^verbatim>\<open>I want to save a memory\<close> with a memory id
  and no image, is answered with \<^verbatim>\<open>save_memory\<close> and arms the context; a response of
  intent \<^verbatim>\<open>memory_saved\<close> deletes an entry; one of intent \<^verbatim>\<open>search_memory\<close> keeps it.
\<close>

theorem context_transition_witness:
  "intent (projr (fst (send_chat_message example_env example_state ''u1''
             (example_request ''I want to save a memory'' None (Some ''mem-1''))))) = ''save_memory'' \<and>
   conversation_contexts (snd (send_chat_message example_env example_state ''u1''
             (example_request ''I want to save a memory'' None (Some ''mem-1'')))) ''u1'' =
     Some \<lparr>expected_intent = Some ''save_memory'', memory_id = Some ''mem-1''\<rparr> \<and>
   update_context [''u1'' \<mapsto> \<lparr>expected_intent = Some ''add_description'', memory_id = None\<rparr>]
     ''u1'' \<lparr>expected_intent = Some ''add_description'', memory_id = None\<rparr>
     (example_request ''a day at the sea'' None None) (example_response ''memory_saved'') ''u1'' = None \<and>
   update_context [''u1'' \<mapsto> \<lparr>expected_intent = Some ''add_description'', memory_id = None\<rparr>]
     ''u1'' \<lparr>expected_intent = Some ''add_description'', memory_id = None\<rparr>
     (example_request ''a day at the sea'' None None) (example_response ''search_memory'') ''u1'' =
     Some \<lparr>expected_intent = Some ''add_description'', memory_id = None\<rparr>"
proof -
  let ?rq = "example_request ''I want to save a memory'' None (Some ''mem-1'')"
  let ?pm = "process_message example_env (db_of example_state) ''u1'' ?rq (Some empty_context)"
  let ?r = "projr (fst ?pm)"
  let ?c = "\<lparr>expected_intent = Some ''add_description'', memory_id = None\<rparr>"
  let ?rq2 = "example_request ''a day at the sea'' None None"
  have none: "conversation_contexts example_state ''u1'' = None"
    by (simp add: example_state_def)
  have "isl (fst ?pm) = False" by code_simp
  then have pm: "?pm = (Inr ?r, snd ?pm)"
    by (cases ?pm; cases "fst ?pm") simp_all
  have i: "intent ?r = ''save_memory''" by code_simp
  have m: "truthy_value (rq_memoryId ?rq) = Some ''mem-1''"
    by (simp add: example_request_def)
  note t = context_transition [of example_env example_state "''u1''" ?rq ?r
             "conversation_contexts example_state" empty_context ?r]
  from t have "?pm = (Inr ?r, snd ?pm) \<longrightarrow>
      send_chat_message example_env example_state ''u1'' ?rq =
        (Inr ?r, \<lparr>db_of = snd ?pm,
                  conversation_contexts =
                    update_context (conversation_contexts example_state) ''u1'' empty_context ?rq ?r\<rparr>)"
    by (simp add: none)
  with pm have s: "send_chat_message example_env example_state ''u1'' ?rq =
        (Inr ?r, \<lparr>db_of = snd ?pm,
                  conversation_contexts =
                    update_context (conversation_contexts example_state) ''u1'' empty_context ?rq ?r\<rparr>)"
    by blast
  from t i have u: "update_context (conversation_contexts example_state) ''u1'' empty_context ?rq ?r =
      (conversation_contexts example_state)(''u1'' \<mapsto>
         empty_context\<lparr>expected_intent := Some (intent ?r),
                        memory_id := (case truthy_value (rq_memoryId ?rq) of
                                        Some m \<Rightarrow> Some m | None \<Rightarrow> memory_id empty_context)\<rparr>)"
    by simp
  have a: "intent (projr (fst (send_chat_message example_env example_state ''u1'' ?rq))) = ''save_memory''"
    using s i by simp
  have b: "conversation_contexts (snd (send_chat_message example_env example_state ''u1'' ?rq)) ''u1'' =
             Some \<lparr>expected_intent = Some ''save_memory'', memory_id = Some ''mem-1''\<rparr>"
  proof -
    have "conversation_contexts (snd (send_chat_message example_env example_state ''u1'' ?rq)) =
            update_context (conversation_contexts example_state) ''u1'' empty_context ?rq ?r"
      by (simp add: s)
    also note u
    finally have "conversation_contexts
                    (snd (send_chat_message example_env example_state ''u1'' ?rq)) ''u1'' =
        Some (empty_context\<lparr>expected_intent := Some ''save_memory'', memory_id := Some ''mem-1''\<rparr>)"
      by (simp add: i m)
    then show ?thesis
      by (simp add: empty_context_def)
  qed
  note t2 = context_transition [of example_env example_state "''u1''" ?rq2
              "example_response ''memory_saved''" "[''u1'' \<mapsto> ?c]" ?c]
  have c: "update_context [''u1'' \<mapsto> ?c] ''u1'' ?c ?rq2 (example_response ''memory_saved'') ''u1'' = None"
    using t2 by (simp add: example_response_def)
  note t3 = context_transition [of example_env example_state "''u1''" ?rq2
              "example_response ''search_memory''" "[''u1'' \<mapsto> ?c]" ?c]
  have d: "update_context [''u1'' \<mapsto> ?c] ''u1'' ?c ?rq2 (example_response ''search_memory'') ''u1'' = Some ?c"
    using t3 by (simp add: example_response_def)
  from a b c d show ?thesis by (intro conjI)
qed

text \<open>
  C10. When the detected intent is none of the seven that \<open>process_message\<close> dispatches
  on, the normal-chat handler answers and the response has the intent \<^verbatim>\<open>chat\<close>. So a
  context whose expected intent is not one of the seven (\<^verbatim>\<open>add_description\<close>,
  \<^verbatim>\<open>confirm_delete\<close>, \<^verbatim>\<open>memory_saved\<close>, ...) makes every turn of its user a \<^verbatim>\<open>chat\<close>
  turn that leaves the context dictionary as it was, and after any sequence of turns,
  of this user or of others, the user's context is still the same.
\<close>

theorem undispatched_intent_is_chat:
  "(detect_intent (rq_text rq) cc \<notin>
      {''save_memory'', ''search_memory'', ''delete_memory'', ''edit_memory'',
       ''update_name'', ''update_avatar'', ''update_password''} \<longrightarrow>
      (\<exists>r. fst (process_message env db user_id rq cc) = Inr r \<and> intent r = ''chat'')) \<and>
   (conversation_contexts st user_id = Some c \<and> expected_intent c = Some e \<and>
    e \<notin> {''save_memory'', ''search_memory'', ''delete_memory'', ''edit_memory'',
          ''update_name'', ''update_avatar'', ''update_password''} \<longrightarrow>
      (\<exists>r. fst (send_chat_message env st user_id rq) = Inr r \<and> intent r = ''chat'') \<and>
      conversation_contexts (snd (send_chat_message env st user_id rq)) = conversation_contexts st \<and>
      conversation_contexts
        (fold (\<lambda>(env', u, rq') s. snd (send_chat_message env' s u rq')) turns st) user_id = Some c)"
proof (intro conjI impI)
  assume "detect_intent (rq_text rq) cc \<notin>
      {''save_memory'', ''search_memory'', ''delete_memory'', ''edit_memory'',
       ''update_name'', ''update_avatar'', ''update_password''}"
  then show "\<exists>r. fst (process_message env db user_id rq cc) = Inr r \<and> intent r = ''chat''"
    by (rule process_message_not_dispatched)
next
  assume a: "conversation_contexts st user_id = Some c \<and> expected_intent c = Some e \<and>
    e \<notin> {''save_memory'', ''search_memory'', ''delete_memory'', ''edit_memory'',
          ''update_name'', ''update_avatar'', ''update_password''}"
  note a1 = a [THEN conjunct1] and a2 = a [THEN conjunct2, THEN conjunct1]
    and a3 = a [THEN conjunct2, THEN conjunct2]
  have armed: "(\<exists>r. fst (send_chat_message env st user_id rq) = Inr r \<and> intent r = ''chat'') \<and>
      conversation_contexts (snd (send_chat_message env st user_id rq)) = conversation_contexts st"
    by (rule send_chat_message_armed [OF a1 a2 a3])
  from armed show "\<exists>r. fst (send_chat_message env st user_id rq) = Inr r \<and> intent r = ''chat''"
    by (rule conjunct1)
  from armed show "conversation_contexts (snd (send_chat_message env st user_id rq)) =
      conversation_contexts st"
    by (rule conjunct2)
  show "conversation_contexts
        (fold (\<lambda>(env', u, rq') s. snd (send_chat_message env' s u rq')) turns st) user_id = Some c"
    by (rule turns_keep_armed [OF a2 a3 a1])
qed

text \<open>
  An instance: a user waiting in \<^verbatim>\<open>add_description\<close> describes the photo, another user
  writes, the first user asks to delete the memory: the answers to the first user are
  \<^verbatim>\<open>chat\<close> and the context still expects \<^verbatim>\<open>add_description\<close>.
\<close>

theorem undispatched_intent_is_chat_witness:
  "detect_intent ''a day at the sea'' (Some (example_context ''add_description'')) = ''add_description'' \<and>
   intent (projr (fst (send_chat_message example_env (example_armed ''add_description'') ''u1''
             (example_request ''please delete this memory'' None None)))) = ''chat'' \<and>
   conversation_contexts
     (fold (\<lambda>(env', u, rq') s. snd (send_chat_message env' s u rq'))
        [(example_env, ''u1'', example_request ''a day at the sea'' None None),
         (example_env, ''u2'', example_request ''I want to save a memory'' None None),
         (example_env, ''u1'', example_request ''please delete this memory'' None None)]
        (example_armed ''add_description'')) ''u1'' =
     Some (example_context ''add_description'')"
proof -
  let ?c = "example_context ''add_description''"
  let ?st = "example_armed ''add_description''"
  let ?rq = "example_request ''please delete this memory'' None None"
  let ?turns = "[(example_env, ''u1'', example_request ''a day at the sea'' None None),
         (example_env, ''u2'', example_request ''I want to save a memory'' None None),
         (example_env, ''u1'', example_request ''please delete this memory'' None None)]"
  have d: "detect_intent ''a day at the sea'' (Some ?c) = ''add_description''"
    by code_simp
  have h: "conversation_contexts ?st ''u1'' = Some ?c \<and>
           expected_intent ?c = Some ''add_description'' \<and>
           ''add_description'' \<notin> {''save_memory'', ''search_memory'', ''delete_memory'',
             ''edit_memory'', ''update_name'', ''update_avatar'', ''update_password''}"
    by (simp add: example_armed_def example_context_def)
  note t = undispatched_intent_is_chat [where rq = ?rq and env = example_env and
             user_id = "''u1''" and st = ?st and c = ?c and e = "''add_description''" and
             turns = ?turns, THEN conjunct2, THEN mp, OF h]
  from t obtain r where "fst (send_chat_message example_env ?st ''u1'' ?rq) = Inr r"
    and "intent r = ''chat''" by blast
  then have a: "intent (projr (fst (send_chat_message example_env ?st ''u1'' ?rq))) = ''chat''"
    by simp
  from t have b: "conversation_contexts
     (fold (\<lambda>(env', u, rq') s. snd (send_chat_message env' s u rq')) ?turns ?st) ''u1'' = Some ?c"
    by (elim conjE)
  from d a b show ?thesis by (intro conjI)
qed

text \<open>
  C5. A message classified as \<^verbatim>\<open>save_memory\<close>. Without an image URL (none given, or the
  empty string) the response has the intent \<^verbatim>\<open>save_memory\<close> and \<^verbatim>\<open>needImage\<close> true in
  its metadata, no memory is created, and the context transition arms \<^verbatim>\<open>save_memory\<close>
  again. With an image URL a memory row with that image and no title, description or
  labels is added, and the response has the intent \<^verbatim>\<open>add_description\<close> with the id of
  the new memory and the image URL in its metadata.
\<close>

theorem save_memory_turn:
  assumes "detect_intent (rq_text rq) cc = ''save_memory''"
  shows "(truthy_value (rq_imageUrl rq) = None \<longrightarrow>
            (\<exists>r db'. process_message env db user_id rq cc = (Inr r, db') \<and>
               intent r = ''save_memory'' \<and> meta r ''needImage'' = Some (JBool True) \<and>
               memories db' = memories db \<and>
               (\<exists>c'. update_context cs user_id uc rq r user_id = Some c' \<and>
                     expected_intent c' = Some ''save_memory''))) \<and>
         (\<forall>url. truthy_value (rq_imageUrl rq) = Some url \<longrightarrow>
            (\<exists>r db'. process_message env db user_id rq cc = (Inr r, db') \<and>
               intent r = ''add_description'' \<and>
               meta r ''memoryId'' = Some (JStr (new_memory_id env)) \<and>
               meta r ''imageUrl'' = Some (JStr url) \<and>
               memories db' = memories db @
                 [\<lparr>mem_id = new_memory_id env, mem_user_id = user_id, image_url = Some url,
                   description = None, title = None, labels = [],
                   memory_date = Some (new_memory_time env),
                   created_at = Some (new_memory_time env), updated_at = None,
                   is_deleted = False, is_favorite = False\<rparr>]))"
proof (intro conjI allI impI)
  let ?db1 = "create_user_message db user_id (rq_text rq) ''user''
                [''imageUrl'' \<mapsto> opt_str (rq_imageUrl rq)]
                (user_id_time env) (user_id_random env) (user_row_time env)"
  have mems: "memories ?db1 = memories db"
    by (simp add: create_user_message_def message_crud_create_def)
  from assms have pm: "process_message env db user_id rq cc = handle_save_memory env ?db1 user_id rq"
    by (simp add: process_message_def Let_def)
  {
    assume none: "truthy_value (rq_imageUrl rq) = None"
    let ?r = "render env ''save_memory'' None None"
    have "process_message env db user_id rq cc = (Inr ?r, persist env ?db1 user_id ?r)"
      using none by (simp add: pm handle_save_memory_def Let_def)
    moreover have "intent ?r = ''save_memory''" by (rule render_intent)
    moreover have "meta ?r ''needImage'' = Some (JBool True)"
      by (simp add: render_def generate_response_def Let_def)
    moreover have "memories (persist env ?db1 user_id ?r) = memories db"
      by (simp add: persist_def message_crud_create_def mems)
    moreover have "\<exists>c'. update_context cs user_id uc rq ?r user_id = Some c' \<and>
                     expected_intent c' = Some ''save_memory''"
      by (cases "truthy_value (rq_memoryId rq)")
         (simp_all add: update_context_def continuation_intents_def render_intent Let_def)
    ultimately show "\<exists>r db'. process_message env db user_id rq cc = (Inr r, db') \<and>
               intent r = ''save_memory'' \<and> meta r ''needImage'' = Some (JBool True) \<and>
               memories db' = memories db \<and>
               (\<exists>c'. update_context cs user_id uc rq r user_id = Some c' \<and>
                     expected_intent c' = Some ''save_memory'')"
      by blast
  }
  {
    fix url
    assume some: "truthy_value (rq_imageUrl rq) = Some url"
    let ?row = "\<lparr>mem_id = new_memory_id env, mem_user_id = user_id, image_url = Some url,
                   description = None, title = None, labels = [],
                   memory_date = Some (new_memory_time env),
                   created_at = Some (new_memory_time env), updated_at = None,
                   is_deleted = False, is_favorite = False\<rparr>"
    let ?db2 = "?db1\<lparr>memories := memories ?db1 @ [?row]\<rparr>"
    let ?r0 = "render env ''add_description'' None
                 (Some [''memory_id'' \<mapsto> new_memory_id env, ''image_url'' \<mapsto> url])"
    let ?r = "?r0\<lparr>meta := (meta ?r0)(''memoryId'' \<mapsto> JStr (new_memory_id env),
                                      ''imageUrl'' \<mapsto> JStr url)\<rparr>"
    have cr: "memory_crud_create ?db1 user_id (Some url) None None None
                (new_memory_id env) (new_memory_time env) (extracted_labels env) = (?row, ?db2)"
      by (simp add: memory_crud_create_def Let_def)
    have "process_message env db user_id rq cc = (Inr ?r, persist env ?db2 user_id ?r)"
      using some by (simp add: pm handle_save_memory_def cr Let_def)
    moreover have "intent ?r = ''add_description''" by (simp add: render_intent)
    moreover have "meta ?r ''memoryId'' = Some (JStr (new_memory_id env))" by simp
    moreover have "meta ?r ''imageUrl'' = Some (JStr url)" by simp
    moreover have "memories (persist env ?db2 user_id ?r) = memories db @ [?row]"
      by (simp add: persist_def message_crud_create_def mems)
    ultimately show "\<exists>r db'. process_message env db user_id rq cc = (Inr r, db') \<and>
               intent r = ''add_description'' \<and>
               meta r ''memoryId'' = Some (JStr (new_memory_id env)) \<and>
               meta r ''imageUrl'' = Some (JStr url) \<and>
               memories db' = memories db @ [?row]"
      by blast
  }
qed

text \<open>
  An instance: \<^verbatim>\<open>I want to save a memory\<close> without an image is answered with
  \<^verbatim>\<open>save_memory\<close>; with the image \<^verbatim>\<open>/u/1.jpg\<close> it is answered with \<^verbatim>\<open>add_description\<close>
  and the memory table, empty before, holds the one new row.
\<close>

theorem save_memory_turn_witness:
  "detect_intent (rq_text (example_request ''I want to save a memory'' None None)) None
     = ''save_memory'' \<and>
   truthy_value (rq_imageUrl (example_request ''I want to save a memory'' None None)) = None \<and>
   intent (projr (fst (process_message example_env (db_of example_state) ''u1''
      (example_request ''I want to save a memory'' None None) None))) = ''save_memory'' \<and>
   truthy_value (rq_imageUrl (example_request ''I want to save a memory'' (Some ''/u/1.jpg'') None))
     = Some ''/u/1.jpg'' \<and>
   intent (projr (fst (process_message example_env (db_of example_state) ''u1''
      (example_request ''I want to save a memory'' (Some ''/u/1.jpg'') None) None)))
     = ''add_description'' \<and>
   map image_url (memories (snd (process_message example_env (db_of example_state) ''u1''
      (example_request ''I want to save a memory'' (Some ''/u/1.jpg'') None) None)))
     = [Some ''/u/1.jpg'']"
proof -
  let ?rq1 = "example_request ''I want to save a memory'' None None"
  let ?rq2 = "example_request ''I want to save a memory'' (Some ''/u/1.jpg'') None"
  have d1: "detect_intent (rq_text ?rq1) None = ''save_memory''" by code_simp
  have d2: "detect_intent (rq_text ?rq2) None = ''save_memory''" by code_simp
  have n1: "truthy_value (rq_imageUrl ?rq1) = None" by (simp add: example_request_def)
  have n2: "truthy_value (rq_imageUrl ?rq2) = Some ''/u/1.jpg''" by (simp add: example_request_def)
  have no_mem: "memories (db_of example_state) = []" by (simp add: example_state_def)
  note t1 = save_memory_turn [OF d1, where env = example_env and db = "db_of example_state"
              and user_id = "''u1''", THEN conjunct1, THEN mp, OF n1]
  from t1 obtain r db' where
    "process_message example_env (db_of example_state) ''u1'' ?rq1 None = (Inr r, db')"
    and "intent r = ''save_memory''" by blast
  then have a: "intent (projr (fst (process_message example_env (db_of example_state) ''u1''
                  ?rq1 None))) = ''save_memory''"
    by simp
  note t2 = save_memory_turn [OF d2, where env = example_env and db = "db_of example_state"
              and user_id = "''u1''", THEN conjunct2, THEN spec, THEN mp, OF n2]
  from t2 obtain r2 db2 where
    pm: "process_message example_env (db_of example_state) ''u1'' ?rq2 None = (Inr r2, db2)"
    and i2: "intent r2 = ''add_description''"
    and m2: "memories db2 = memories (db_of example_state) @
      [\<lparr>mem_id = new_memory_id example_env, mem_user_id = ''u1'', image_url = Some ''/u/1.jpg'',
        description = None, title = None, labels = [],
        memory_date = Some (new_memory_time example_env),
        created_at = Some (new_memory_time example_env), updated_at = None,
        is_deleted = False, is_favorite = False\<rparr>]"
    by blast
  from pm i2 have b: "intent (projr (fst (process_message example_env (db_of example_state) ''u1''
                  ?rq2 None))) = ''add_description''"
    by simp
  from pm m2 have c: "map image_url (memories (snd (process_message example_env
                  (db_of example_state) ''u1'' ?rq2 None))) = [Some ''/u/1.jpg'']"
    by (simp add: no_mem)
  from d1 n1 a n2 b c show ?thesis by (intro conjI)
qed

text \<open>
  C6. The delete handler does not look the memory up. On a database without memories a
  \<^verbatim>\<open>delete_memory\<close> turn that names the memory \<^verbatim>\<open>mem-404\<close> is answered with
  \<^verbatim>\<open>confirm_delete\<close> for that id, and the context is armed with it. The same request
  as an \<^verbatim>\<open>edit_memory\<close> turn raises the not-found error, which the endpoint passes on
  with status 500, and the context dictionary stays as it was.
\<close>

theorem delete_memory_skips_lookup:
  "memory_crud_get_by_id (db_of example_state) ''mem-404'' = None \<and>
   detect_intent ''delete this memory'' None = ''delete_memory'' \<and>
   (case send_chat_message example_env example_state ''u1''
           (example_request ''delete this memory'' None (Some ''mem-404'')) of
      (Inr r, st') \<Rightarrow>
        intent r = ''confirm_delete'' \<and> meta r ''memoryId'' = Some (JStr ''mem-404'') \<and>
        conversation_contexts st' ''u1'' =
          Some \<lparr>expected_intent = Some ''confirm_delete'', memory_id = Some ''mem-404''\<rparr>
    | (Inl err, st') \<Rightarrow> False) \<and>
   detect_intent ''edit this memory'' None = ''edit_memory'' \<and>
   (case send_chat_message example_env example_state ''u1''
           (example_request ''edit this memory'' None (Some ''mem-404'')) of
      (Inl (HTTPException status (MemoryNotFoundError detail)), st') \<Rightarrow>
        status = 500 \<and> detail = ''Memory not found'' \<and> conversation_contexts st' ''u1'' = None
    | (Inr r, st') \<Rightarrow> False)"
  by code_simp

end
